theory Spec2Isabelle
  imports Complex_Main "HOL-Library.Log_Nat"
begin

section \<open>Python numbers\<close>

text \<open>
  Python's \<open>int\<close> is unbounded and is modelled by \<open>int\<close>. A finite \<open>float\<close> is an IEEE 754
  binary64 number and is modelled by the rational number it denotes. Every arithmetic
  operation on floats returns the binary64 number nearest to the exact result (ties to the
  even significand); \<open>b64\<close> is that rounding, so \<open>a * b\<close> on floats is \<open>b64 (a * b)\<close> here.
  Not modelled: infinities, NaN, the sign of zero, overflow (magnitudes from \<open>2 ^ 1024\<close> on)
  and gradual underflow (magnitudes below \<open>2 ^ - 1022\<close>); none of them arises from the
  dimensions of an image, a ratio of two of them, a confidence or a reading of the clock.
\<close>

definition round_half_even_div :: "int \<Rightarrow> int \<Rightarrow> int" where
  \<comment> \<open>the integer nearest to \<open>n / d\<close> for \<open>0 < d\<close>, a tie going to the even one\<close>
  "round_half_even_div n d =
     (let f = n div d; r = n mod d in
      if 2 * r < d then f else if d < 2 * r then f + 1
      else if even f then f else f + 1)"

definition floor_log2 :: "int \<Rightarrow> int \<Rightarrow> int" where
  \<comment> \<open>the exponent \<open>e\<close> with \<open>2 ^ e \<le> p / q < 2 ^ (e + 1)\<close>, for \<open>0 < p\<close> and \<open>0 < q\<close>\<close>
  "floor_log2 p q =
     (let d = bitlen p - bitlen q in
      if 0 \<le> d then (if q * 2 ^ nat d \<le> p then d else d - 1)
      else (if q \<le> p * 2 ^ nat (- d) then d else d - 1))"

definition b64 :: "rat \<Rightarrow> rat" where
  \<comment> \<open>round to 53 significant bits, ties to even\<close>
  "b64 x =
     (let (p, q) = quotient_of x in
      if p = 0 then 0 else
      let a = \<bar>p\<bar>; s = sgn p; k = 52 - floor_log2 a q in
      if 0 \<le> k then Fract (s * round_half_even_div (a * 2 ^ nat k) q) (2 ^ nat k)
      else Fract (s * round_half_even_div a (q * 2 ^ nat (- k)) * 2 ^ nat (- k)) 1)"

definition unit_roundoff :: rat where
  \<comment> \<open>the largest relative error of one rounding\<close>
  "unit_roundoff = 1 / 2 ^ 53"

definition float_of_int :: "int \<Rightarrow> rat" where
  \<comment> \<open>the conversion of an \<open>int\<close> operand in mixed arithmetic\<close>
  "float_of_int n = b64 (of_int n)"

definition float_mul :: "rat \<Rightarrow> rat \<Rightarrow> rat" where
  "float_mul a b = b64 (a * b)"

definition float_sub :: "rat \<Rightarrow> rat \<Rightarrow> rat" where
  "float_sub a b = b64 (a - b)"

definition float_div :: "rat \<Rightarrow> rat \<Rightarrow> rat" where
  \<comment> \<open>for a divisor that is not zero; the source divides by a length it has found not to
      be zero, and by the constant 255\<close>
  "float_div a b = b64 (a / b)"

definition int_true_div :: "int \<Rightarrow> int \<Rightarrow> rat" where
  \<comment> \<open>\<open>a / b\<close> on two \<open>int\<close>s with \<open>b \<noteq> 0\<close>: the float nearest to the exact quotient\<close>
  "int_true_div a b = b64 (Fract a b)"

definition lit :: "int \<Rightarrow> int \<Rightarrow> rat" where
  \<comment> \<open>the float that a decimal literal \<open>n / d\<close> of the source text denotes\<close>
  "lit n d = b64 (Fract n d)"

definition py_int :: "rat \<Rightarrow> int" where
  \<comment> \<open>\<open>int(x)\<close> on a float: truncation towards zero\<close>
  "py_int x = (if 0 \<le> x then \<lfloor>x\<rfloor> else - \<lfloor>- x\<rfloor>)"

definition py_round2 :: "rat \<Rightarrow> rat" where
  \<comment> \<open>\<open>round(x, 2)\<close>: the exact value is rounded to two decimals, ties to even, and the
      float nearest to that decimal is returned\<close>
  "py_round2 x = (let (p, q) = quotient_of x in b64 (Fract (round_half_even_div (p * 100) q) 100))"

function digits_of :: "int \<Rightarrow> string" where
  "digits_of n =
     (if n < 10 then [''0123456789'' ! nat n]
      else digits_of (n div 10) @ [''0123456789'' ! nat (n mod 10)])"
  by pat_completeness auto
termination
  by (relation "measure nat") auto

definition str_of_int :: "int \<Rightarrow> string" where
  \<comment> \<open>\<open>str(n)\<close>, also what an f-string prints for an \<open>int\<close>\<close>
  "str_of_int n = (if n < 0 then ''-'' @ digits_of (- n) else digits_of n)"

definition format_2f :: "rat \<Rightarrow> string" where
  \<comment> \<open>the format \<open>.2f\<close>: the exact value rounded to two decimals, ties to even\<close>
  "format_2f x =
     (let (p, q) = quotient_of \<bar>x\<bar>; h = round_half_even_div (p * 100) q in
      (if x < 0 then ''-'' else []) @ digits_of (h div 100) @ ''.'' @
      digits_of (h mod 100 div 10) @ digits_of (h mod 10))"

declare digits_of.simps [simp del]

section \<open>Strings\<close>

text \<open>
  A Python \<open>str\<close> is modelled by the list of the bytes of its UTF-8 encoding, which is
  one to one on strings. The literals of the source that are not ASCII are written out
  byte by byte, with an English gloss. \<open>py_len\<close> is Python's \<open>len\<close>: it counts code points,
  that is the bytes that are not continuation bytes (\<open>0x80\<close> to \<open>0xBF\<close>).
\<close>

definition py_len :: "string \<Rightarrow> int" where
  "py_len s = int (length (filter (\<lambda>c. \<not> ((128::nat) \<le> of_char c \<and> of_char c < (192::nat))) s))"

definition name_4_3 :: string where
  \<comment> \<open>4:3 (standard)\<close>
  "name_4_3 =
     ''4:3'' @ [CHR 0xEF, CHR 0xBC, CHR 0x88, CHR 0xE6, CHR 0xA8, CHR 0x99, CHR 0xE6,
     CHR 0xBA, CHR 0x96, CHR 0xEF, CHR 0xBC, CHR 0x89]"

definition name_16_9 :: string where
  \<comment> \<open>16:9 (wide)\<close>
  "name_16_9 =
     ''16:9'' @ [CHR 0xEF, CHR 0xBC, CHR 0x88, CHR 0xE3, CHR 0x83, CHR 0xAF, CHR 0xE3,
     CHR 0x82, CHR 0xA4, CHR 0xE3, CHR 0x83, CHR 0x89, CHR 0xEF, CHR 0xBC, CHR 0x89]"

definition name_16_10 :: string where
  \<comment> \<open>16:10\<close>
  "name_16_10 =
     ''16:10''"

definition name_185_1 :: string where
  \<comment> \<open>1.85:1 (film)\<close>
  "name_185_1 =
     ''1.85:1'' @ [CHR 0xEF, CHR 0xBC, CHR 0x88, CHR 0xE6, CHR 0x98, CHR 0xA0, CHR 0xE7,
     CHR 0x94, CHR 0xBB, CHR 0xEF, CHR 0xBC, CHR 0x89]"

definition name_235_1 :: string where
  \<comment> \<open>2.35:1 (CinemaScope)\<close>
  "name_235_1 =
     ''2.35:1'' @ [CHR 0xEF, CHR 0xBC, CHR 0x88, CHR 0xE3, CHR 0x82, CHR 0xB7, CHR 0xE3,
     CHR 0x83, CHR 0x8D, CHR 0xE3, CHR 0x83, CHR 0x9E, CHR 0xE3, CHR 0x82, CHR 0xB9,
     CHR 0xE3, CHR 0x82, CHR 0xB3, CHR 0xE3, CHR 0x83, CHR 0xBC, CHR 0xE3, CHR 0x83,
     CHR 0x97, CHR 0xEF, CHR 0xBC, CHR 0x89]"

definition name_1_1 :: string where
  \<comment> \<open>1:1 (square)\<close>
  "name_1_1 =
     ''1:1'' @ [CHR 0xEF, CHR 0xBC, CHR 0x88, CHR 0xE6, CHR 0xAD, CHR 0xA3, CHR 0xE6,
     CHR 0x96, CHR 0xB9, CHR 0xE5, CHR 0xBD, CHR 0xA2, CHR 0xEF, CHR 0xBC, CHR 0x89]"

definition name_3_4 :: string where
  \<comment> \<open>3:4 (portrait standard)\<close>
  "name_3_4 =
     ''3:4'' @ [CHR 0xEF, CHR 0xBC, CHR 0x88, CHR 0xE7, CHR 0xB8, CHR 0xA6, CHR 0xE5,
     CHR 0x90, CHR 0x91, CHR 0xE3, CHR 0x81, CHR 0x8D, CHR 0xE6, CHR 0xA8, CHR 0x99,
     CHR 0xE6, CHR 0xBA, CHR 0x96, CHR 0xEF, CHR 0xBC, CHR 0x89]"

definition name_9_16 :: string where
  \<comment> \<open>9:16 (portrait wide)\<close>
  "name_9_16 =
     ''9:16'' @ [CHR 0xEF, CHR 0xBC, CHR 0x88, CHR 0xE7, CHR 0xB8, CHR 0xA6, CHR 0xE5,
     CHR 0x90, CHR 0x91, CHR 0xE3, CHR 0x81, CHR 0x8D, CHR 0xE3, CHR 0x83, CHR 0xAF,
     CHR 0xE3, CHR 0x82, CHR 0xA4, CHR 0xE3, CHR 0x83, CHR 0x89, CHR 0xEF, CHR 0xBC,
     CHR 0x89]"

definition txt_one_of :: string where
  \<comment> \<open>prefix of a part for a label seen once: one of\<close>
  "txt_one_of =
     ''1'' @ [CHR 0xE3, CHR 0x81, CHR 0xA4, CHR 0xE3, CHR 0x81, CHR 0xAE]"

definition txt_count_of :: string where
  \<comment> \<open>between the count and the label: N of\<close>
  "txt_count_of =
     [CHR 0xE5, CHR 0x80, CHR 0x8B, CHR 0xE3, CHR 0x81, CHR 0xAE]"

definition txt_image_has :: string where
  \<comment> \<open>start of the description: this image contains\<close>
  "txt_image_has =
     [CHR 0xE3, CHR 0x81, CHR 0x93, CHR 0xE3, CHR 0x81, CHR 0xAE, CHR 0xE7, CHR 0x94,
     CHR 0xBB, CHR 0xE5, CHR 0x83, CHR 0x8F, CHR 0xE3, CHR 0x81, CHR 0xAB, CHR 0xE3,
     CHR 0x81, CHR 0xAF]"

definition txt_comma :: string where
  \<comment> \<open>the ideographic comma joining the parts\<close>
  "txt_comma =
     [CHR 0xE3, CHR 0x80, CHR 0x81]"

definition txt_is_included :: string where
  \<comment> \<open>end of the description\<close>
  "txt_is_included =
     [CHR 0xE3, CHR 0x81, CHR 0x8C, CHR 0xE5, CHR 0x90, CHR 0xAB, CHR 0xE3, CHR 0x81,
     CHR 0xBE, CHR 0xE3, CHR 0x82, CHR 0x8C, CHR 0xE3, CHR 0x81, CHR 0xA6, CHR 0xE3,
     CHR 0x81, CHR 0x84, CHR 0xE3, CHR 0x81, CHR 0xBE, CHR 0xE3, CHR 0x81, CHR 0x99,
     CHR 0xE3, CHR 0x80, CHR 0x82]"

definition txt_nothing_detected :: string where
  \<comment> \<open>no particular object was detected in this image\<close>
  "txt_nothing_detected =
     [CHR 0xE3, CHR 0x81, CHR 0x93, CHR 0xE3, CHR 0x81, CHR 0xAE, CHR 0xE7, CHR 0x94,
     CHR 0xBB, CHR 0xE5, CHR 0x83, CHR 0x8F, CHR 0xE3, CHR 0x81, CHR 0xAB, CHR 0xE3,
     CHR 0x81, CHR 0xAF, CHR 0xE7, CHR 0x89, CHR 0xB9, CHR 0xE5, CHR 0xAE, CHR 0x9A,
     CHR 0xE3, CHR 0x81, CHR 0xAE, CHR 0xE3, CHR 0x82, CHR 0xAA, CHR 0xE3, CHR 0x83,
     CHR 0x96, CHR 0xE3, CHR 0x82, CHR 0xB8, CHR 0xE3, CHR 0x82, CHR 0xA7, CHR 0xE3,
     CHR 0x82, CHR 0xAF, CHR 0xE3, CHR 0x83, CHR 0x88, CHR 0xE3, CHR 0x81, CHR 0x8C,
     CHR 0xE6, CHR 0xA4, CHR 0x9C, CHR 0xE5, CHR 0x87, CHR 0xBA, CHR 0xE3, CHR 0x81,
     CHR 0x95, CHR 0xE3, CHR 0x82, CHR 0x8C, CHR 0xE3, CHR 0x81, CHR 0xBE, CHR 0xE3,
     CHR 0x81, CHR 0x9B, CHR 0xE3, CHR 0x82, CHR 0x93, CHR 0xE3, CHR 0x81, CHR 0xA7,
     CHR 0xE3, CHR 0x81, CHR 0x97, CHR 0xE3, CHR 0x81, CHR 0x9F, CHR 0xE3, CHR 0x80,
     CHR 0x82]"

definition mock_ocr_text :: string where
  \<comment> \<open>sample text - mock data for debugging\<close>
  "mock_ocr_text =
     [CHR 0xE3, CHR 0x82, CHR 0xB5, CHR 0xE3, CHR 0x83, CHR 0xB3, CHR 0xE3, CHR 0x83,
     CHR 0x97, CHR 0xE3, CHR 0x83, CHR 0xAB, CHR 0xE3, CHR 0x83, CHR 0x86, CHR 0xE3,
     CHR 0x82, CHR 0xAD, CHR 0xE3, CHR 0x82, CHR 0xB9, CHR 0xE3, CHR 0x83, CHR 0x88] @
     '' - '' @ [CHR 0xE3, CHR 0x83, CHR 0x87, CHR 0xE3, CHR 0x83, CHR 0x90, CHR 0xE3,
     CHR 0x83, CHR 0x83, CHR 0xE3, CHR 0x82, CHR 0xB0, CHR 0xE7, CHR 0x94, CHR 0xA8,
     CHR 0xE3, CHR 0x81, CHR 0xAE, CHR 0xE3, CHR 0x83, CHR 0xA2, CHR 0xE3, CHR 0x83,
     CHR 0x83, CHR 0xE3, CHR 0x82, CHR 0xAF, CHR 0xE3, CHR 0x83, CHR 0x87, CHR 0xE3,
     CHR 0x83, CHR 0xBC, CHR 0xE3, CHR 0x82, CHR 0xBF, CHR 0xE3, CHR 0x81, CHR 0xA7,
     CHR 0xE3, CHR 0x81, CHR 0x99, CHR 0xE3, CHR 0x80, CHR 0x82]"

definition mock_region_text_1 :: string where
  \<comment> \<open>sample text\<close>
  "mock_region_text_1 =
     [CHR 0xE3, CHR 0x82, CHR 0xB5, CHR 0xE3, CHR 0x83, CHR 0xB3, CHR 0xE3, CHR 0x83,
     CHR 0x97, CHR 0xE3, CHR 0x83, CHR 0xAB, CHR 0xE3, CHR 0x83, CHR 0x86, CHR 0xE3,
     CHR 0x82, CHR 0xAD, CHR 0xE3, CHR 0x82, CHR 0xB9, CHR 0xE3, CHR 0x83, CHR 0x88]"

definition mock_region_text_2 :: string where
  \<comment> \<open>mock data for debugging\<close>
  "mock_region_text_2 =
     [CHR 0xE3, CHR 0x83, CHR 0x87, CHR 0xE3, CHR 0x83, CHR 0x90, CHR 0xE3, CHR 0x83,
     CHR 0x83, CHR 0xE3, CHR 0x82, CHR 0xB0, CHR 0xE7, CHR 0x94, CHR 0xA8, CHR 0xE3,
     CHR 0x81, CHR 0xAE, CHR 0xE3, CHR 0x83, CHR 0xA2, CHR 0xE3, CHR 0x83, CHR 0x83,
     CHR 0xE3, CHR 0x82, CHR 0xAF, CHR 0xE3, CHR 0x83, CHR 0x87, CHR 0xE3, CHR 0x83,
     CHR 0xBC, CHR 0xE3, CHR 0x82, CHR 0xBF, CHR 0xE3, CHR 0x81, CHR 0xA7, CHR 0xE3,
     CHR 0x81, CHR 0x99, CHR 0xE3, CHR 0x80, CHR 0x82]"

definition mock_description :: string where
  \<comment> \<open>this is a screenshot of a desktop; a window, icons and text are shown\<close>
  "mock_description =
     [CHR 0xE3, CHR 0x81, CHR 0x93, CHR 0xE3, CHR 0x82, CHR 0x8C, CHR 0xE3, CHR 0x81,
     CHR 0xAF, CHR 0xE3, CHR 0x83, CHR 0x87, CHR 0xE3, CHR 0x82, CHR 0xB9, CHR 0xE3,
     CHR 0x82, CHR 0xAF, CHR 0xE3, CHR 0x83, CHR 0x88, CHR 0xE3, CHR 0x83, CHR 0x83,
     CHR 0xE3, CHR 0x83, CHR 0x97, CHR 0xE3, CHR 0x81, CHR 0xAE, CHR 0xE3, CHR 0x82,
     CHR 0xB9, CHR 0xE3, CHR 0x82, CHR 0xAF, CHR 0xE3, CHR 0x83, CHR 0xAA, CHR 0xE3,
     CHR 0x83, CHR 0xBC, CHR 0xE3, CHR 0x83, CHR 0xB3, CHR 0xE3, CHR 0x82, CHR 0xB7,
     CHR 0xE3, CHR 0x83, CHR 0xA7, CHR 0xE3, CHR 0x83, CHR 0x83, CHR 0xE3, CHR 0x83,
     CHR 0x88, CHR 0xE3, CHR 0x81, CHR 0xA7, CHR 0xE3, CHR 0x81, CHR 0x99, CHR 0xE3,
     CHR 0x80, CHR 0x82, CHR 0xE3, CHR 0x82, CHR 0xA6, CHR 0xE3, CHR 0x82, CHR 0xA3,
     CHR 0xE3, CHR 0x83, CHR 0xB3, CHR 0xE3, CHR 0x83, CHR 0x89, CHR 0xE3, CHR 0x82,
     CHR 0xA6, CHR 0xE3, CHR 0x80, CHR 0x81, CHR 0xE3, CHR 0x82, CHR 0xA2, CHR 0xE3,
     CHR 0x82, CHR 0xA4, CHR 0xE3, CHR 0x82, CHR 0xB3, CHR 0xE3, CHR 0x83, CHR 0xB3,
     CHR 0xE3, CHR 0x80, CHR 0x81, CHR 0xE3, CHR 0x81, CHR 0x8A, CHR 0xE3, CHR 0x82,
     CHR 0x88, CHR 0xE3, CHR 0x81, CHR 0xB3, CHR 0xE3, CHR 0x83, CHR 0x86, CHR 0xE3,
     CHR 0x82, CHR 0xAD, CHR 0xE3, CHR 0x82, CHR 0xB9, CHR 0xE3, CHR 0x83, CHR 0x88,
     CHR 0xE3, CHR 0x81, CHR 0x8C, CHR 0xE8, CHR 0xA1, CHR 0xA8, CHR 0xE7, CHR 0xA4,
     CHR 0xBA, CHR 0xE3, CHR 0x81, CHR 0x95, CHR 0xE3, CHR 0x82, CHR 0x8C, CHR 0xE3,
     CHR 0x81, CHR 0xA6, CHR 0xE3, CHR 0x81, CHR 0x84, CHR 0xE3, CHR 0x81, CHR 0xBE,
     CHR 0xE3, CHR 0x81, CHR 0x99, CHR 0xE3, CHR 0x80, CHR 0x82]"

definition mock_tag_screenshot :: string where
  \<comment> \<open>screenshot\<close>
  "mock_tag_screenshot =
     [CHR 0xE3, CHR 0x82, CHR 0xB9, CHR 0xE3, CHR 0x82, CHR 0xAF, CHR 0xE3, CHR 0x83,
     CHR 0xAA, CHR 0xE3, CHR 0x83, CHR 0xBC, CHR 0xE3, CHR 0x83, CHR 0xB3, CHR 0xE3,
     CHR 0x82, CHR 0xB7, CHR 0xE3, CHR 0x83, CHR 0xA7, CHR 0xE3, CHR 0x83, CHR 0x83,
     CHR 0xE3, CHR 0x83, CHR 0x88]"

definition mock_tag_desktop :: string where
  \<comment> \<open>desktop\<close>
  "mock_tag_desktop =
     [CHR 0xE3, CHR 0x83, CHR 0x87, CHR 0xE3, CHR 0x82, CHR 0xB9, CHR 0xE3, CHR 0x82,
     CHR 0xAF, CHR 0xE3, CHR 0x83, CHR 0x88, CHR 0xE3, CHR 0x83, CHR 0x83, CHR 0xE3,
     CHR 0x83, CHR 0x97]"

definition mock_tag_window :: string where
  \<comment> \<open>window (in katakana)\<close>
  "mock_tag_window =
     [CHR 0xE3, CHR 0x82, CHR 0xA6, CHR 0xE3, CHR 0x82, CHR 0xA3, CHR 0xE3, CHR 0x83,
     CHR 0xB3, CHR 0xE3, CHR 0x83, CHR 0x89, CHR 0xE3, CHR 0x82, CHR 0xA6]"

definition msg_model_not_loaded :: string where
  \<comment> \<open>the model is not loaded\<close>
  "msg_model_not_loaded =
     [CHR 0xE3, CHR 0x83, CHR 0xA2, CHR 0xE3, CHR 0x83, CHR 0x87, CHR 0xE3, CHR 0x83,
     CHR 0xAB, CHR 0xE3, CHR 0x81, CHR 0x8C, CHR 0xE3, CHR 0x83, CHR 0xAD, CHR 0xE3,
     CHR 0x83, CHR 0xBC, CHR 0xE3, CHR 0x83, CHR 0x89, CHR 0xE3, CHR 0x81, CHR 0x95,
     CHR 0xE3, CHR 0x82, CHR 0x8C, CHR 0xE3, CHR 0x81, CHR 0xA6, CHR 0xE3, CHR 0x81,
     CHR 0x84, CHR 0xE3, CHR 0x81, CHR 0xBE, CHR 0xE3, CHR 0x81, CHR 0x9B, CHR 0xE3,
     CHR 0x82, CHR 0x93]"

definition msg_disabled :: string where
  \<comment> \<open>the model is disabled\<close>
  "msg_disabled =
     [CHR 0xE3, CHR 0x83, CHR 0xA2, CHR 0xE3, CHR 0x83, CHR 0x87, CHR 0xE3, CHR 0x83,
     CHR 0xAB, CHR 0xE3, CHR 0x81, CHR 0xAF, CHR 0xE7, CHR 0x84, CHR 0xA1, CHR 0xE5,
     CHR 0x8A, CHR 0xB9, CHR 0xE5, CHR 0x8C, CHR 0x96, CHR 0xE3, CHR 0x81, CHR 0x95,
     CHR 0xE3, CHR 0x82, CHR 0x8C, CHR 0xE3, CHR 0x81, CHR 0xA6, CHR 0xE3, CHR 0x81,
     CHR 0x84, CHR 0xE3, CHR 0x81, CHR 0xBE, CHR 0xE3, CHR 0x81, CHR 0x99]"

definition msg_no_tensorflow :: string where
  \<comment> \<open>TensorFlow is not installed\<close>
  "msg_no_tensorflow =
     ''TensorFlow/TensorFlow.js'' @ [CHR 0xE3, CHR 0x81, CHR 0x8C, CHR 0xE3, CHR 0x82,
     CHR 0xA4, CHR 0xE3, CHR 0x83, CHR 0xB3, CHR 0xE3, CHR 0x82, CHR 0xB9, CHR 0xE3,
     CHR 0x83, CHR 0x88, CHR 0xE3, CHR 0x83, CHR 0xBC, CHR 0xE3, CHR 0x83, CHR 0xAB,
     CHR 0xE3, CHR 0x81, CHR 0x95, CHR 0xE3, CHR 0x82, CHR 0x8C, CHR 0xE3, CHR 0x81,
     CHR 0xA6, CHR 0xE3, CHR 0x81, CHR 0x84, CHR 0xE3, CHR 0x81, CHR 0xBE, CHR 0xE3,
     CHR 0x81, CHR 0x9B, CHR 0xE3, CHR 0x82, CHR 0x93]"

definition msg_no_mobilenet :: string where
  \<comment> \<open>cannot import the MobileNet model:\<close>
  "msg_no_mobilenet =
     ''MobileNet'' @ [CHR 0xE3, CHR 0x83, CHR 0xA2, CHR 0xE3, CHR 0x83, CHR 0x87, CHR 0xE3,
     CHR 0x83, CHR 0xAB, CHR 0xE3, CHR 0x82, CHR 0x92, CHR 0xE3, CHR 0x82, CHR 0xA4,
     CHR 0xE3, CHR 0x83, CHR 0xB3, CHR 0xE3, CHR 0x83, CHR 0x9D, CHR 0xE3, CHR 0x83,
     CHR 0xBC, CHR 0xE3, CHR 0x83, CHR 0x88, CHR 0xE3, CHR 0x81, CHR 0xA7, CHR 0xE3,
     CHR 0x81, CHR 0x8D, CHR 0xE3, CHR 0x81, CHR 0xBE, CHR 0xE3, CHR 0x81, CHR 0x9B,
     CHR 0xE3, CHR 0x82, CHR 0x93] @ '': ''"

definition msg_no_cocossd :: string where
  \<comment> \<open>cannot import the COCO-SSD model:\<close>
  "msg_no_cocossd =
     ''COCO-SSD'' @ [CHR 0xE3, CHR 0x83, CHR 0xA2, CHR 0xE3, CHR 0x83, CHR 0x87, CHR 0xE3,
     CHR 0x83, CHR 0xAB, CHR 0xE3, CHR 0x82, CHR 0x92, CHR 0xE3, CHR 0x82, CHR 0xA4,
     CHR 0xE3, CHR 0x83, CHR 0xB3, CHR 0xE3, CHR 0x83, CHR 0x9D, CHR 0xE3, CHR 0x83,
     CHR 0xBC, CHR 0xE3, CHR 0x83, CHR 0x88, CHR 0xE3, CHR 0x81, CHR 0xA7, CHR 0xE3,
     CHR 0x81, CHR 0x8D, CHR 0xE3, CHR 0x81, CHR 0xBE, CHR 0xE3, CHR 0x81, CHR 0x9B,
     CHR 0xE3, CHR 0x82, CHR 0x93] @ '': ''"

definition msg_no_pytesseract :: string where
  \<comment> \<open>pytesseract is not installed\<close>
  "msg_no_pytesseract =
     ''pytesseract'' @ [CHR 0xE3, CHR 0x81, CHR 0x8C, CHR 0xE3, CHR 0x82, CHR 0xA4, CHR 0xE3,
     CHR 0x83, CHR 0xB3, CHR 0xE3, CHR 0x82, CHR 0xB9, CHR 0xE3, CHR 0x83, CHR 0x88,
     CHR 0xE3, CHR 0x83, CHR 0xBC, CHR 0xE3, CHR 0x83, CHR 0xAB, CHR 0xE3, CHR 0x81,
     CHR 0x95, CHR 0xE3, CHR 0x82, CHR 0x8C, CHR 0xE3, CHR 0x81, CHR 0xA6, CHR 0xE3,
     CHR 0x81, CHR 0x84, CHR 0xE3, CHR 0x81, CHR 0xBE, CHR 0xE3, CHR 0x81, CHR 0x9B,
     CHR 0xE3, CHR 0x82, CHR 0x93]"

definition msg_no_tesseract_info :: string where
  \<comment> \<open>cannot get the version and languages of Tesseract:\<close>
  "msg_no_tesseract_info =
     ''Tesseract'' @ [CHR 0xE3, CHR 0x81, CHR 0xAE, CHR 0xE3, CHR 0x83, CHR 0x90, CHR 0xE3,
     CHR 0x83, CHR 0xBC, CHR 0xE3, CHR 0x82, CHR 0xB8, CHR 0xE3, CHR 0x83, CHR 0xA7,
     CHR 0xE3, CHR 0x83, CHR 0xB3, CHR 0xE3, CHR 0x83, CHR 0xBB, CHR 0xE8, CHR 0xA8,
     CHR 0x80, CHR 0xE8, CHR 0xAA, CHR 0x9E, CHR 0xE6, CHR 0x83, CHR 0x85, CHR 0xE5,
     CHR 0xA0, CHR 0xB1, CHR 0xE3, CHR 0x82, CHR 0x92, CHR 0xE5, CHR 0x8F, CHR 0x96,
     CHR 0xE5, CHR 0xBE, CHR 0x97, CHR 0xE3, CHR 0x81, CHR 0xA7, CHR 0xE3, CHR 0x81,
     CHR 0x8D, CHR 0xE3, CHR 0x81, CHR 0xBE, CHR 0xE3, CHR 0x81, CHR 0x9B, CHR 0xE3,
     CHR 0x82, CHR 0x93] @ '': ''"

definition msg_loaded_prefix :: string where
  \<comment> \<open>loading the model finished (\<close>
  "msg_loaded_prefix =
     [CHR 0xE3, CHR 0x83, CHR 0xA2, CHR 0xE3, CHR 0x83, CHR 0x87, CHR 0xE3, CHR 0x83,
     CHR 0xAB, CHR 0xE3, CHR 0x81, CHR 0xAE, CHR 0xE3, CHR 0x83, CHR 0xAD, CHR 0xE3,
     CHR 0x83, CHR 0xBC, CHR 0xE3, CHR 0x83, CHR 0x89, CHR 0xE3, CHR 0x81, CHR 0x8C,
     CHR 0xE5, CHR 0xAE, CHR 0x8C, CHR 0xE4, CHR 0xBA, CHR 0x86, CHR 0xE3, CHR 0x81,
     CHR 0x97, CHR 0xE3, CHR 0x81, CHR 0xBE, CHR 0xE3, CHR 0x81, CHR 0x97, CHR 0xE3,
     CHR 0x81, CHR 0x9F] @ '' (''"

definition msg_loaded_suffix :: string where
  \<comment> \<open>seconds)\<close>
  "msg_loaded_suffix =
     [CHR 0xE7, CHR 0xA7, CHR 0x92] @ '')''"

definition msg_load_failed :: string where
  \<comment> \<open>loading the model failed:\<close>
  "msg_load_failed =
     [CHR 0xE3, CHR 0x83, CHR 0xA2, CHR 0xE3, CHR 0x83, CHR 0x87, CHR 0xE3, CHR 0x83,
     CHR 0xAB, CHR 0xE3, CHR 0x81, CHR 0xAE, CHR 0xE3, CHR 0x83, CHR 0xAD, CHR 0xE3,
     CHR 0x83, CHR 0xBC, CHR 0xE3, CHR 0x83, CHR 0x89, CHR 0xE3, CHR 0x81, CHR 0xAB,
     CHR 0xE5, CHR 0xA4, CHR 0xB1, CHR 0xE6, CHR 0x95, CHR 0x97, CHR 0xE3, CHR 0x81,
     CHR 0x97, CHR 0xE3, CHR 0x81, CHR 0xBE, CHR 0xE3, CHR 0x81, CHR 0x97, CHR 0xE3,
     CHR 0x81, CHR 0x9F] @ '': ''"

definition msg_skipped :: string where
  \<comment> \<open>skipped in headless mode\<close>
  "msg_skipped =
     [CHR 0xE3, CHR 0x83, CHR 0x98, CHR 0xE3, CHR 0x83, CHR 0x83, CHR 0xE3, CHR 0x83,
     CHR 0x89, CHR 0xE3, CHR 0x83, CHR 0xAC, CHR 0xE3, CHR 0x82, CHR 0xB9, CHR 0xE3,
     CHR 0x83, CHR 0xA2, CHR 0xE3, CHR 0x83, CHR 0xBC, CHR 0xE3, CHR 0x83, CHR 0x89,
     CHR 0xE3, CHR 0x81, CHR 0xA7, CHR 0xE3, CHR 0x82, CHR 0xB9, CHR 0xE3, CHR 0x82,
     CHR 0xAD, CHR 0xE3, CHR 0x83, CHR 0x83, CHR 0xE3, CHR 0x83, CHR 0x97, CHR 0xE3,
     CHR 0x81, CHR 0x95, CHR 0xE3, CHR 0x82, CHR 0x8C, CHR 0xE3, CHR 0x81, CHR 0xBE,
     CHR 0xE3, CHR 0x81, CHR 0x97, CHR 0xE3, CHR 0x81, CHR 0x9F]"

definition msg_all_skipped :: string where
  \<comment> \<open>all model tests were skipped in headless mode\<close>
  "msg_all_skipped =
     [CHR 0xE5, CHR 0x85, CHR 0xA8, CHR 0xE3, CHR 0x81, CHR 0xA6, CHR 0xE3, CHR 0x81,
     CHR 0xAE, CHR 0xE3, CHR 0x83, CHR 0xA2, CHR 0xE3, CHR 0x83, CHR 0x87, CHR 0xE3,
     CHR 0x83, CHR 0xAB, CHR 0xE3, CHR 0x83, CHR 0x86, CHR 0xE3, CHR 0x82, CHR 0xB9,
     CHR 0xE3, CHR 0x83, CHR 0x88, CHR 0xE3, CHR 0x81, CHR 0x8C, CHR 0xE3, CHR 0x83,
     CHR 0x98, CHR 0xE3, CHR 0x83, CHR 0x83, CHR 0xE3, CHR 0x83, CHR 0x89, CHR 0xE3,
     CHR 0x83, CHR 0xAC, CHR 0xE3, CHR 0x82, CHR 0xB9, CHR 0xE3, CHR 0x83, CHR 0xA2,
     CHR 0xE3, CHR 0x83, CHR 0xBC, CHR 0xE3, CHR 0x83, CHR 0x89, CHR 0xE3, CHR 0x81,
     CHR 0xA7, CHR 0xE3, CHR 0x82, CHR 0xB9, CHR 0xE3, CHR 0x82, CHR 0xAD, CHR 0xE3,
     CHR 0x83, CHR 0x83, CHR 0xE3, CHR 0x83, CHR 0x97, CHR 0xE3, CHR 0x81, CHR 0x95,
     CHR 0xE3, CHR 0x82, CHR 0x8C, CHR 0xE3, CHR 0x81, CHR 0xBE, CHR 0xE3, CHR 0x81,
     CHR 0x97, CHR 0xE3, CHR 0x81, CHR 0x9F]"

definition msg_model_quote :: string where
  \<comment> \<open>model, followed by an opening quote\<close>
  "msg_model_quote =
     [CHR 0xE3, CHR 0x83, CHR 0xA2, CHR 0xE3, CHR 0x83, CHR 0x87, CHR 0xE3, CHR 0x83,
     CHR 0xAB] @ '' '' @ [CHR 0x27]"

definition msg_one_skipped :: string where
  \<comment> \<open>closing quote; its loading was skipped in headless mode\<close>
  "msg_one_skipped =
     [CHR 0x27] @ '' '' @ [CHR 0xE3, CHR 0x81, CHR 0xAE, CHR 0xE3, CHR 0x83, CHR 0xAD,
     CHR 0xE3, CHR 0x83, CHR 0xBC, CHR 0xE3, CHR 0x83, CHR 0x89, CHR 0xE3, CHR 0x81,
     CHR 0xAF, CHR 0xE3, CHR 0x83, CHR 0x98, CHR 0xE3, CHR 0x83, CHR 0x83, CHR 0xE3,
     CHR 0x83, CHR 0x89, CHR 0xE3, CHR 0x83, CHR 0xAC, CHR 0xE3, CHR 0x82, CHR 0xB9,
     CHR 0xE3, CHR 0x83, CHR 0xA2, CHR 0xE3, CHR 0x83, CHR 0xBC, CHR 0xE3, CHR 0x83,
     CHR 0x89, CHR 0xE3, CHR 0x81, CHR 0xA7, CHR 0xE3, CHR 0x82, CHR 0xB9, CHR 0xE3,
     CHR 0x82, CHR 0xAD, CHR 0xE3, CHR 0x83, CHR 0x83, CHR 0xE3, CHR 0x83, CHR 0x97,
     CHR 0xE3, CHR 0x81, CHR 0x95, CHR 0xE3, CHR 0x82, CHR 0x8C, CHR 0xE3, CHR 0x81,
     CHR 0xBE, CHR 0xE3, CHR 0x81, CHR 0x97, CHR 0xE3, CHR 0x81, CHR 0x9F]"

definition msg_unknown_model :: string where
  \<comment> \<open>unknown model name\<close>
  "msg_unknown_model =
     [CHR 0xE6, CHR 0x9C, CHR 0xAA, CHR 0xE7, CHR 0x9F, CHR 0xA5, CHR 0xE3, CHR 0x81,
     CHR 0xAE, CHR 0xE3, CHR 0x83, CHR 0xA2, CHR 0xE3, CHR 0x83, CHR 0x87, CHR 0xE3,
     CHR 0x83, CHR 0xAB, CHR 0xE5, CHR 0x90, CHR 0x8D]"

definition msg_not_recognised :: string where
  \<comment> \<open>closing quote; is not recognised\<close>
  "msg_not_recognised =
     [CHR 0x27] @ '' '' @ [CHR 0xE3, CHR 0x81, CHR 0xAF, CHR 0xE8, CHR 0xAA, CHR 0x8D,
     CHR 0xE8, CHR 0xAD, CHR 0x98, CHR 0xE3, CHR 0x81, CHR 0x95, CHR 0xE3, CHR 0x82,
     CHR 0x8C, CHR 0xE3, CHR 0x81, CHR 0xBE, CHR 0xE3, CHR 0x81, CHR 0x9B, CHR 0xE3,
     CHR 0x82, CHR 0x93]"

definition msg_all_done :: string where
  \<comment> \<open>all model tests finished\<close>
  "msg_all_done =
     [CHR 0xE5, CHR 0x85, CHR 0xA8, CHR 0xE3, CHR 0x81, CHR 0xA6, CHR 0xE3, CHR 0x81,
     CHR 0xAE, CHR 0xE3, CHR 0x83, CHR 0xA2, CHR 0xE3, CHR 0x83, CHR 0x87, CHR 0xE3,
     CHR 0x83, CHR 0xAB, CHR 0xE3, CHR 0x83, CHR 0x86, CHR 0xE3, CHR 0x82, CHR 0xB9,
     CHR 0xE3, CHR 0x83, CHR 0x88, CHR 0xE3, CHR 0x81, CHR 0x8C, CHR 0xE5, CHR 0xAE,
     CHR 0x8C, CHR 0xE4, CHR 0xBA, CHR 0x86, CHR 0xE3, CHR 0x81, CHR 0x97, CHR 0xE3,
     CHR 0x81, CHR 0xBE, CHR 0xE3, CHR 0x81, CHR 0x97, CHR 0xE3, CHR 0x81, CHR 0x9F]"

section \<open>Image metadata (image_analysis.py)\<close>

text \<open>
  \<open>get_image_details\<close> reads the file and returns nested dictionaries. The part that is
  computed from the width and the height is \<open>make_image_info\<close>; the colour statistics are
  present only when NumPy is available and the image is RGB or RGBA, so they are optional
  fields of \<open>color_info\<close>.
\<close>

record color_info =
  ci_mode :: string
  ci_has_alpha :: bool
  ci_is_grayscale :: bool
  ci_is_rgb :: bool
  ci_avg_color_hex :: "string option"
  ci_brightness_percent :: "rat option"
  ci_color_variance :: "rat option"

record image_info =
  ii_width :: int
  ii_height :: int
  ii_resolution :: string
  ii_aspect_ratio :: rat
  ii_format :: string
  ii_orientation :: string
  ii_is_portrait :: bool
  ii_is_landscape :: bool
  ii_color_info :: color_info
  ii_aspect_ratio_name :: string

record file_info =
  fi_filename :: string
  fi_filepath :: string
  fi_filesize_bytes :: int
  fi_extension :: string

record image_details =
  id_file_info :: file_info
  id_image_info :: image_info

definition near :: "rat \<Rightarrow> rat \<Rightarrow> bool" where
  \<comment> \<open>\<open>abs(rounded - c) <= 0.03\<close>, where \<open>c\<close> is the float of the decimal literal\<close>
  "near rounded c \<longleftrightarrow> \<bar>float_sub rounded c\<bar> \<le> lit 3 100"

definition custom_ratio_name :: "rat \<Rightarrow> rat \<Rightarrow> string" where
  \<comment> \<open>the f-string \<open>{rounded:.2f}:1\<close>; a negative ratio that rounds to zero gives the float
      \<open>-0.0\<close>, which prints with its sign\<close>
  "custom_ratio_name ratio rounded =
     (if ratio < 0 \<and> rounded = 0 then ''-'' else []) @ format_2f rounded @ '':1''"

definition get_aspect_ratio_name :: "rat \<Rightarrow> string" where
  "get_aspect_ratio_name ratio =
     (let rounded = py_round2 ratio in
      if near rounded (lit 133 100) then name_4_3
      else if near rounded (lit 178 100) then name_16_9
      else if near rounded (lit 16 10) then name_16_10
      else if near rounded (lit 185 100) then name_185_1
      else if near rounded (lit 235 100) then name_235_1
      else if near rounded (lit 10 10) then name_1_1
      else if near rounded (lit 75 100) then name_3_4
      else if near rounded (lit 56 100) then name_9_16
      else custom_ratio_name ratio rounded)"

definition make_image_info :: "int \<Rightarrow> int \<Rightarrow> string \<Rightarrow> color_info \<Rightarrow> image_info" where
  "make_image_info width height format_name color =
     (let aspect_ratio = (if height > 0 then int_true_div width height else 0) in
      \<lparr> ii_width = width,
        ii_height = height,
        ii_resolution = str_of_int width @ ''x'' @ str_of_int height,
        ii_aspect_ratio = aspect_ratio,
        ii_format = format_name,
        ii_orientation =
          (if height > width then ''portrait''
           else if width > height then ''landscape'' else ''square''),
        ii_is_portrait = (height > width),
        ii_is_landscape = (width \<ge> height),
        ii_color_info = color,
        ii_aspect_ratio_name = get_aspect_ratio_name aspect_ratio \<rparr>)"

text \<open>
  The table of section 4.1 of the specification, in its order: the decimal constants the
  source compares with, and the names it returns.
\<close>

definition ratio_table :: "(rat \<times> string) list" where
  "ratio_table =
     [(lit 133 100, name_4_3), (lit 178 100, name_16_9), (lit 16 10, name_16_10),
      (lit 185 100, name_185_1), (lit 235 100, name_235_1), (lit 10 10, name_1_1),
      (lit 75 100, name_3_4), (lit 56 100, name_9_16)]"

definition table_ratio_name :: "rat \<Rightarrow> string" where
  \<comment> \<open>first match wins; the distance is taken from the ratio rounded to two decimals\<close>
  "table_ratio_name ratio =
     (case find (\<lambda>(c, n). near (py_round2 ratio) c) ratio_table of
        Some (c, n) \<Rightarrow> n
      | None \<Rightarrow> custom_ratio_name ratio (py_round2 ratio))"

definition claimed_ratio_name :: "rat \<Rightarrow> string" where
  \<comment> \<open>the reading in which the distance is taken from the ratio itself\<close>
  "claimed_ratio_name ratio =
     (case find (\<lambda>(c, n). \<bar>ratio - c\<bar> \<le> 3 / 100) ratio_table of
        Some (c, n) \<Rightarrow> n
      | None \<Rightarrow> custom_ratio_name ratio (py_round2 ratio))"

section \<open>Detections and analysis results (image_analysis.py)\<close>

record bbox =
  bb_x :: int
  bb_y :: int
  bb_width :: int
  bb_height :: int

record detected_object =
  obj_label :: string
  obj_confidence :: rat
  obj_bbox :: bbox

record ocr_region =
  reg_text :: string
  reg_bbox :: bbox
  reg_confidence :: rat

text \<open>The mock OCR block has a confidence of its own; the block of a real analysis has none.\<close>

record ocr_results =
  ocr_detected :: bool
  ocr_confidence :: "rat option"
  ocr_text :: string
  ocr_regions :: "ocr_region list"

record analysis_results =
  ar_objects :: "detected_object list"
  ar_ocr :: ocr_results
  ar_description :: string
  ar_tags :: "string list"
  ar_confidence :: rat

text \<open>
  What \<open>YOLOModel.detect\<close> returns: a dictionary whose keys depend on the path taken, so
  every key is optional here.
\<close>

record detection_results =
  dr_error :: "string option"
  dr_objects :: "detected_object list option"
  dr_count :: "int option"
  dr_image_path :: "string option"
  dr_model :: "string option"

subsection \<open>build_analysis_results\<close>

fun bump :: "(string \<times> int) list \<Rightarrow> string \<Rightarrow> (string \<times> int) list" where
  \<comment> \<open>\<open>object_counts[label] = object_counts.get(label, 0) + 1\<close> on a dictionary that keeps
      the order in which its keys were inserted\<close>
  "bump [] l = [(l, 1)]"
| "bump ((k, c) # kcs) l = (if k = l then (k, c + 1) # kcs else (k, c) # bump kcs l)"

definition object_counts :: "detected_object list \<Rightarrow> (string \<times> int) list" where
  "object_counts objects = foldl bump [] (map obj_label objects)"

definition description_part :: "string \<times> int \<Rightarrow> string" where
  "description_part lc =
     (case lc of (l, c) \<Rightarrow>
        if c = 1 then txt_one_of @ l else str_of_int c @ txt_count_of @ l)"

fun py_join :: "string \<Rightarrow> string list \<Rightarrow> string" where
  "py_join sep [] = []"
| "py_join sep [s] = s"
| "py_join sep (s # t # ss) = s @ sep @ py_join sep (t # ss)"

definition float_sum :: "rat list \<Rightarrow> rat" where
  \<comment> \<open>\<open>sum\<close> over floats: it starts from the \<open>int\<close> zero and adds from left to right, each
      addition rounding (CPython from 3.12 on also carries a correction term, which is not
      modelled)\<close>
  "float_sum xs = foldl (\<lambda>s x. b64 (s + x)) 0 xs"

definition avg_confidence :: "detected_object list \<Rightarrow> rat" where
  "avg_confidence objects =
     (if objects \<noteq> []
      then float_div (float_sum (map obj_confidence objects)) (float_of_int (int (length objects)))
      else 0)"

definition real_ocr_results :: ocr_results where
  "real_ocr_results =
     \<lparr> ocr_detected = False, ocr_confidence = None, ocr_text = [], ocr_regions = [] \<rparr>"

text \<open>
  The tags are \<open>list(set(...))\<close> of the labels: Python leaves the order of that list open,
  the model takes the order of \<open>remdups\<close>, and nothing below depends on it.
\<close>

definition build_analysis_results ::
  "string \<Rightarrow> image_details \<Rightarrow> detection_results \<Rightarrow> analysis_results" where
  "build_analysis_results image_path details detection =
     (let objects = (case dr_objects detection of Some os \<Rightarrow> os | None \<Rightarrow> []);
          tags = remdups (map obj_label objects);
          description_parts = map description_part (object_counts objects);
          description =
            (if description_parts \<noteq> []
             then txt_image_has @ py_join txt_comma description_parts @ txt_is_included
             else txt_nothing_detected)
      in \<lparr> ar_objects = objects,
           ar_ocr = real_ocr_results,
           ar_description = description,
           ar_tags = tags,
           ar_confidence = avg_confidence objects \<rparr>)"

subsection \<open>generate_mock_analysis_results\<close>

definition scale :: "int \<Rightarrow> rat \<Rightarrow> int" where
  \<comment> \<open>\<open>int(n * c)\<close> for an \<open>int n\<close> and a float \<open>c\<close>\<close>
  "scale n c = py_int (float_mul (float_of_int n) c)"

definition generate_mock_analysis_results :: "string \<Rightarrow> image_details \<Rightarrow> analysis_results" where
  "generate_mock_analysis_results image_path details =
     (let width = ii_width (id_image_info details);
          height = ii_height (id_image_info details);
          objects =
            [\<lparr> obj_label = ''window'', obj_confidence = lit 92 100,
               obj_bbox = \<lparr> bb_x = scale width (lit 1 10), bb_y = scale height (lit 1 10),
                            bb_width = scale width (lit 8 10),
                            bb_height = scale height (lit 7 10) \<rparr> \<rparr>,
             \<lparr> obj_label = ''icon'', obj_confidence = lit 85 100,
               obj_bbox = \<lparr> bb_x = scale width (lit 5 100), bb_y = scale height (lit 1 10),
                            bb_width = scale width (lit 5 100),
                            bb_height = scale height (lit 67 1000) \<rparr> \<rparr>,
             \<lparr> obj_label = ''text'', obj_confidence = lit 76 100,
               obj_bbox = \<lparr> bb_x = scale width (lit 2 10), bb_y = scale height (lit 15 100),
                            bb_width = scale width (lit 6 10),
                            bb_height = scale height (lit 5 100) \<rparr> \<rparr>];
          ocr =
            \<lparr> ocr_detected = True,
              ocr_confidence = Some (lit 72 100),
              ocr_text = mock_ocr_text,
              ocr_regions =
                [\<lparr> reg_text = mock_region_text_1,
                   reg_bbox = \<lparr> bb_x = scale width (lit 2 10), bb_y = scale height (lit 15 100),
                                bb_width = scale width (lit 3 10),
                                bb_height = scale height (lit 5 100) \<rparr>,
                   reg_confidence = lit 78 100 \<rparr>,
                 \<lparr> reg_text = mock_region_text_2,
                   reg_bbox = \<lparr> bb_x = scale width (lit 2 10), bb_y = scale height (lit 2 10),
                                bb_width = scale width (lit 4 10),
                                bb_height = scale height (lit 5 100) \<rparr>,
                   reg_confidence = lit 65 100 \<rparr>] \<rparr>
      in \<lparr> ar_objects = objects,
           ar_ocr = ocr,
           ar_description = mock_description,
           ar_tags = [mock_tag_screenshot, mock_tag_desktop, mock_tag_window, ''UI''],
           ar_confidence = lit 87 100 \<rparr>)"

text \<open>
  What it is for a box to be a fixed fraction of the canvas. A length of whole pixels is
  the fraction \<open>p / q\<close> of a side of \<open>n\<close> pixels when it is that fraction cut to a whole
  number, or one pixel less: the product is computed in floats, and a float just below a
  whole number loses a pixel when it is cut.
\<close>

definition near_fraction :: "int \<Rightarrow> int \<times> int \<Rightarrow> int \<Rightarrow> bool" where
  "near_fraction n f v \<longleftrightarrow>
     (case f of (p, q) \<Rightarrow> (n * p) div q - 1 \<le> v \<and> v \<le> (n * p) div q)"

definition box_at ::
  "int \<Rightarrow> int \<Rightarrow> (int \<times> int) \<times> (int \<times> int) \<times> (int \<times> int) \<times> (int \<times> int) \<Rightarrow> bbox \<Rightarrow> bool"
  where
  \<comment> \<open>the corner is at the fractions \<open>fx\<close> of the width and \<open>fy\<close> of the height, the size is
      the fractions \<open>fw\<close> of the width and \<open>fh\<close> of the height\<close>
  "box_at width height fs b \<longleftrightarrow>
     (case fs of (fx, fy, fw, fh) \<Rightarrow>
        near_fraction width fx (bb_x b) \<and> near_fraction height fy (bb_y b) \<and>
        near_fraction width fw (bb_width b) \<and> near_fraction height fh (bb_height b))"

definition inside_canvas :: "int \<Rightarrow> int \<Rightarrow> bbox \<Rightarrow> bool" where
  \<comment> \<open>the box starts on the canvas and ends on it\<close>
  "inside_canvas width height b \<longleftrightarrow>
     0 \<le> bb_x b \<and> 0 \<le> bb_y b \<and> 0 \<le> bb_width b \<and> 0 \<le> bb_height b \<and>
     bb_x b + bb_width b \<le> width \<and> bb_y b + bb_height b \<le> height"

section \<open>Exceptions and the detector (yolo_model.py)\<close>

text \<open>
  A call into a library either returns or raises. An exception is kept as its class, as
  far as the handlers of the source tell classes apart (\<open>except ImportError\<close> against
  \<open>except Exception\<close>), and its text \<open>str(e)\<close>. Exceptions outside \<open>Exception\<close>
  (\<open>KeyboardInterrupt\<close>, \<open>SystemExit\<close>) are not modelled.
\<close>

datatype exn = ImportError string | OtherError string

datatype 'a outcome = Returns 'a | Raises exn

fun str_of_exn :: "exn \<Rightarrow> string" where
  "str_of_exn (ImportError s) = s"
| "str_of_exn (OtherError s) = s"

text \<open>
  One box of a result of ultralytics: the corners \<open>xyxy\<close>, the confidence and the class,
  all floats. A result carries its boxes and the dictionary \<open>names\<close> from class ids to
  labels.
\<close>

record raw_box =
  rb_x1 :: rat
  rb_y1 :: rat
  rb_x2 :: rat
  rb_y2 :: rat
  rb_conf :: rat
  rb_cls :: rat

record raw_result =
  rr_boxes :: "raw_box list"
  rr_names :: "int \<rightharpoonup> string"

text \<open>
  The library as the detector sees it: whether \<open>ultralytics\<close> could be imported, what
  \<open>YOLO(model_path)\<close> does and what calling the model on an image does.
\<close>

record yolo_env =
  ye_available :: bool
  ye_construct :: "string \<Rightarrow> unit outcome"
  ye_infer :: "string \<Rightarrow> rat \<Rightarrow> raw_result list outcome"

record yolo_model =
  ym_loaded :: bool
  ym_is_loaded :: bool
  ym_confidence :: rat
  ym_model_path :: string

definition new_yolo_model :: "string option \<Rightarrow> rat \<Rightarrow> yolo_model" where
  \<comment> \<open>\<open>__init__\<close>: \<open>ym_loaded\<close> tells whether \<open>self.model\<close> holds a model\<close>
  "new_yolo_model model_path confidence =
     \<lparr> ym_loaded = False, ym_is_loaded = False, ym_confidence = confidence,
       ym_model_path =
         (case model_path of None \<Rightarrow> ''yolov8n.pt''
          | Some p \<Rightarrow> if p = [] then ''yolov8n.pt'' else p) \<rparr>"

definition load :: "yolo_env \<Rightarrow> yolo_model \<Rightarrow> bool \<times> yolo_model" where
  "load env m =
     (if \<not> ye_available env then (False, m)
      else case ye_construct env (ym_model_path m) of
             Returns _ \<Rightarrow> (True, m\<lparr>ym_loaded := True, ym_is_loaded := True\<rparr>)
           | Raises e \<Rightarrow> (False, m\<lparr>ym_is_loaded := False\<rparr>))"

definition convert_box :: "(int \<rightharpoonup> string) \<Rightarrow> raw_box \<Rightarrow> detected_object outcome" where
  \<comment> \<open>one turn of the loop over \<open>result.boxes\<close>; a class id that \<open>names\<close> lacks is a
      \<open>KeyError\<close>, whose text is the key\<close>
  "convert_box names b =
     (let class_id = py_int (rb_cls b) in
      case names class_id of
        None \<Rightarrow> Raises (OtherError (str_of_int class_id))
      | Some l \<Rightarrow>
          Returns \<lparr> obj_label = l, obj_confidence = rb_conf b,
                    obj_bbox = \<lparr> bb_x = py_int (rb_x1 b), bb_y = py_int (rb_y1 b),
                                 bb_width = py_int (float_sub (rb_x2 b) (rb_x1 b)),
                                 bb_height = py_int (float_sub (rb_y2 b) (rb_y1 b)) \<rparr> \<rparr>)"

fun convert_boxes :: "(int \<rightharpoonup> string) \<Rightarrow> raw_box list \<Rightarrow> detected_object list outcome" where
  "convert_boxes names [] = Returns []"
| "convert_boxes names (b # bs) =
     (case convert_box names b of
        Raises e \<Rightarrow> Raises e
      | Returns obj \<Rightarrow>
          (case convert_boxes names bs of
             Raises e \<Rightarrow> Raises e
           | Returns objs \<Rightarrow> Returns (obj # objs)))"

definition detect_body :: "yolo_env \<Rightarrow> yolo_model \<Rightarrow> string \<Rightarrow> detection_results outcome" where
  \<comment> \<open>the statements inside \<open>try\<close>\<close>
  "detect_body env m image_path =
     (case ye_infer env image_path (ym_confidence m) of
        Raises e \<Rightarrow> Raises e
      | Returns results \<Rightarrow>
          (case results of
             [] \<Rightarrow> Raises (OtherError ''list index out of range'')
           | result # _ \<Rightarrow>
               (case convert_boxes (rr_names result) (rr_boxes result) of
                  Raises e \<Rightarrow> Raises e
                | Returns detected_objects \<Rightarrow>
                    Returns \<lparr> dr_error = None,
                              dr_objects = Some detected_objects,
                              dr_count = Some (int (length detected_objects)),
                              dr_image_path = Some image_path,
                              dr_model = Some ''yolov8'' \<rparr>)))"

definition detect ::
  "yolo_env \<Rightarrow> yolo_model \<Rightarrow> string \<Rightarrow> detection_results outcome \<times> yolo_model" where
  \<comment> \<open>the result is an \<open>outcome\<close>, so that an exception leaving \<open>detect\<close> would show\<close>
  "detect env m image_path =
     (let (ok, m') = (if \<not> ym_is_loaded m then load env m else (True, m)) in
      if \<not> ok then
        (Returns \<lparr> dr_error = Some msg_model_not_loaded, dr_objects = Some [],
                   dr_count = None, dr_image_path = None, dr_model = None \<rparr>, m')
      else
        (case detect_body env m' image_path of
           Returns r \<Rightarrow> (Returns r, m')
         | Raises e \<Rightarrow>
             (Returns \<lparr> dr_error = Some (str_of_exn e), dr_objects = Some [],
                        dr_count = None, dr_image_path = Some image_path,
                        dr_model = None \<rparr>, m')))"

section \<open>The pipeline (analyze_image)\<close>

record metadata =
  md_version :: string
  md_mode :: string
  md_image_path :: string

record color_analysis =
  ca_estimated_brightness :: string
  ca_dominant_colors :: "string list"
  ca_color_variance :: string

record debug_info =
  dbg_mock_data :: bool
  dbg_model_used :: "string option"
  dbg_color_analysis :: color_analysis

record performance =
  pf_analysis_time_seconds :: rat
  pf_analysis_time_ms :: rat

record full_results =
  fr_metadata :: metadata
  fr_image_details :: image_details
  fr_analysis :: analysis_results
  fr_debug_info :: debug_info
  fr_performance :: performance
  fr_timestamp :: string

definition get_or :: "'a option \<Rightarrow> 'a \<Rightarrow> 'a" where
  \<comment> \<open>\<open>d.get(key, default)\<close> on an optional key\<close>
  "get_or v d = (case v of Some x \<Rightarrow> x | None \<Rightarrow> d)"

definition estimated_brightness :: "color_info \<Rightarrow> string" where
  "estimated_brightness ci =
     (if get_or (ci_brightness_percent ci) 50 > 70 then ''bright''
      else if get_or (ci_brightness_percent ci) 50 > 30 then ''medium''
      else ''dark'')"

definition color_variance_level :: "color_info \<Rightarrow> string" where
  "color_variance_level ci =
     (if get_or (ci_color_variance ci) 50 > 80 then ''high''
      else if get_or (ci_color_variance ci) 50 > 40 then ''medium''
      else ''low'')"

definition make_debug_info :: "bool \<Rightarrow> string \<Rightarrow> image_details \<Rightarrow> debug_info" where
  "make_debug_info mock model_used details =
     (let ci = ii_color_info (id_image_info details) in
      \<lparr> dbg_mock_data = mock,
        dbg_model_used = (if mock then None else Some model_used),
        dbg_color_analysis =
          \<lparr> ca_estimated_brightness = estimated_brightness ci,
            ca_dominant_colors = [get_or (ci_avg_color_hex ci) ''#ffffff''],
            ca_color_variance = color_variance_level ci \<rparr> \<rparr>)"

text \<open>
  What \<open>analyze_image\<close> meets outside itself: whether the image can be read, whether
  \<open>ultralytics\<close> is there and what it does, the clock, and whether the report and the
  annotated image can be written. \<open>ae_stem\<close> is \<open>Path(image_path).stem\<close>, and
  \<open>ae_path_join\<close> is the path \<open>Path(directory) / name\<close> as a string.
\<close>

record analysis_env =
  ae_image_details :: "string \<Rightarrow> image_details outcome"
  ae_yolo :: yolo_env
  ae_elapsed_time :: rat
  ae_isoformat :: string
  ae_strftime :: string
  ae_stem :: "string \<Rightarrow> string"
  ae_path_join :: "string \<Rightarrow> string \<Rightarrow> string"
  ae_ensure_output_dir :: "string \<Rightarrow> unit outcome"
  ae_write_json :: "string \<Rightarrow> full_results \<Rightarrow> unit outcome"
  ae_visual_feedback :: "string \<Rightarrow> full_results \<Rightarrow> string \<Rightarrow> unit outcome"

record analysis_output =
  ao_results :: "full_results option"
  ao_result_file :: "string option"
  ao_visual_feedback :: "string option"
  ao_error :: "string option"
  ao_success :: bool

definition select_analysis ::
  "analysis_env \<Rightarrow> bool \<Rightarrow> string option \<Rightarrow> string \<Rightarrow> image_details \<Rightarrow>
   (analysis_results \<times> string) outcome"
  where
  \<comment> \<open>the branch on \<open>mock\<close> and on \<open>YOLO_AVAILABLE\<close>: the analysis and \<open>model_used\<close>\<close>
  "select_analysis env mock model_path image_path details =
     (if mock then Returns (generate_mock_analysis_results image_path details, ''mock'')
      else if ye_available (ae_yolo env) then
        (case fst (detect (ae_yolo env) (new_yolo_model model_path (lit 25 100)) image_path) of
           Returns detection \<Rightarrow>
             Returns (build_analysis_results image_path details detection, ''yolov8'')
         | Raises e \<Rightarrow> Raises e)
      else Returns (generate_mock_analysis_results image_path details,
                    ''mock (YOLO unavailable)''))"

definition make_full_results ::
  "analysis_env \<Rightarrow> bool \<Rightarrow> string option \<Rightarrow> string \<Rightarrow> image_details \<Rightarrow>
   full_results outcome" where
  \<comment> \<open>the statements of \<open>analyze_image\<close> that build \<open>full_results\<close>\<close>
  "make_full_results env mock model_path image_path details =
     (case select_analysis env mock model_path image_path details of
        Raises e \<Rightarrow> Raises e
      | Returns (analysis, model_used) \<Rightarrow>
          Returns
            \<lparr> fr_metadata =
                \<lparr> md_version = ''1.0.0'',
                  md_mode = (if mock then ''mock_analysis'' else ''yolo_analysis''),
                  md_image_path = image_path \<rparr>,
              fr_image_details = details,
              fr_analysis = analysis,
              fr_debug_info = make_debug_info mock model_used details,
              fr_performance =
                \<lparr> pf_analysis_time_seconds = ae_elapsed_time env,
                  pf_analysis_time_ms = float_mul (ae_elapsed_time env) 1000 \<rparr>,
              fr_timestamp = ae_isoformat env \<rparr>)"

definition failed_output :: "exn \<Rightarrow> analysis_output" where
  \<comment> \<open>the handler \<open>except Exception\<close> of \<open>analyze_image\<close>\<close>
  "failed_output e =
     \<lparr> ao_results = None, ao_result_file = None, ao_visual_feedback = None,
       ao_error = Some (str_of_exn e), ao_success = False \<rparr>"

definition analyze_image ::
  "analysis_env \<Rightarrow> string \<Rightarrow> string \<Rightarrow> bool \<Rightarrow> bool \<Rightarrow> string option \<Rightarrow> analysis_output" where
  "analyze_image env image_path output_dir generate_visual mock model_path =
     (case ae_ensure_output_dir env output_dir of
        Raises e \<Rightarrow> failed_output e
      | Returns _ \<Rightarrow>
     (case ae_image_details env image_path of
        Raises e \<Rightarrow> failed_output e
      | Returns details \<Rightarrow>
     (case make_full_results env mock model_path image_path details of
        Raises e \<Rightarrow> failed_output e
      | Returns full \<Rightarrow>
     (let result_file = ae_path_join env output_dir
            (''analysis_'' @ ae_stem env image_path @ ''_'' @ ae_strftime env @ ''.json'');
          feedback_file = ae_path_join env output_dir
            (ae_stem env image_path @ ''_feedback_'' @ ae_strftime env @ ''.png'')
      in case ae_write_json env result_file full of
           Raises e \<Rightarrow> failed_output e
         | Returns _ \<Rightarrow>
             if generate_visual then
               (case ae_visual_feedback env image_path full feedback_file of
                  Raises e \<Rightarrow> failed_output e
                | Returns _ \<Rightarrow>
                    \<lparr> ao_results = Some full, ao_result_file = Some result_file,
                      ao_visual_feedback = Some feedback_file, ao_error = None,
                      ao_success = True \<rparr>)
             else
               \<lparr> ao_results = Some full, ao_result_file = Some result_file,
                 ao_visual_feedback = None, ao_error = None, ao_success = True \<rparr>))))"

section \<open>The overlays of the annotated image (generate_visual_feedback)\<close>

text \<open>
  What is drawn is kept as the list of the calls on the drawing object, in their order.
  The two loops that draw the detections are modelled; the two information panels that
  follow them are not.
\<close>

type_synonym rgba = "int \<times> int \<times> int \<times> int"

datatype draw_call =
    Outline "int \<times> int" "int \<times> int" rgba int
  | Filled "int \<times> int" "int \<times> int" rgba
  | DrawText "int \<times> int" string rgba

definition draw_object :: "detected_object \<Rightarrow> draw_call list" where
  "draw_object obj =
     (let x = bb_x (obj_bbox obj); y = bb_y (obj_bbox obj);
          w = bb_width (obj_bbox obj); h = bb_height (obj_bbox obj);
          label_text = obj_label obj @ '' ('' @ format_2f (obj_confidence obj) @ '')''
      in [Outline (x, y) (x + w, y + h) (0, 255, 0, 220) 2,
          Filled (x, y - 25) (x + py_len label_text * 7, y) (0, 255, 0, 180),
          DrawText (x + 5, y - 20) label_text (0, 0, 0, 255)])"

definition draw_region :: "ocr_region \<Rightarrow> draw_call list" where
  "draw_region region =
     (let x = bb_x (reg_bbox region); y = bb_y (reg_bbox region);
          w = bb_width (reg_bbox region); h = bb_height (reg_bbox region);
          text_confidence = '' ('' @ format_2f (reg_confidence region) @ '')''
      in [Outline (x, y) (x + w, y + h) (255, 0, 0, 220) 2,
          Filled (x, y - 25) (x + py_len (reg_text region) * 7, y) (255, 0, 0, 180),
          DrawText (x + 5, y - 20) (reg_text region @ text_confidence) (255, 255, 255, 255)])"

definition object_overlays :: "full_results \<Rightarrow> draw_call list" where
  "object_overlays results = concat (map draw_object (ar_objects (fr_analysis results)))"

definition ocr_overlays :: "full_results \<Rightarrow> draw_call list" where
  "ocr_overlays results =
     (if ocr_detected (ar_ocr (fr_analysis results))
      then concat (map draw_region (ocr_regions (ar_ocr (fr_analysis results))))
      else [])"

section \<open>The model loader (model_loader.py)\<close>

record model_config =
  mc_enabled :: "bool option"
  mc_language :: "string option"
  mc_config :: "string option"

text \<open>
  The configuration is a dictionary of dictionaries; the keys that the loader reads are
  \<open>app.headless_mode\<close>, \<open>analysis.mock_in_headless\<close> and \<open>models.<name>\<close>. A caller may
  pass no configuration at all (\<open>None\<close>).
\<close>

record config =
  cfg_headless_mode :: "bool option"
  cfg_mock_in_headless :: "bool option"
  cfg_models :: "string \<rightharpoonup> model_config"

record model_status =
  ms_loaded :: bool
  ms_error :: "string option"
  ms_time :: "rat option"

datatype model_handle =
    MobileNetV2
  | DummyCocoSSD
  | Tesseract string "string list" string

record model_loader =
  ld_config :: "config option"
  ld_models :: "string \<rightharpoonup> model_handle"
  ld_model_status :: "string \<rightharpoonup> model_status"

text \<open>
  The calls that reach a backend. Each one is recorded in the world when it is made, so
  that a run that makes none can be told from one that does.
\<close>

datatype backend_call =
    NewModelLoader
  | ImportMobileNet
  | BuildMobileNet
  | SelfTestMobileNet
  | ImportObjectDetection
  | TesseractVersion
  | TesseractLanguages

text \<open>
  The world of the loader: how often the clock \<open>time.time()\<close> has been read, and the
  backend calls made so far.
\<close>

record world =
  w_clock_reads :: nat
  w_calls :: "backend_call list"

text \<open>
  What lies outside the loader: the two import flags of the module, the clock (its
  n-th reading), the text of a stack trace, the formatted local time, and what each
  backend call does.
\<close>

record loader_env =
  le_tf_available :: bool
  le_tesseract_available :: bool
  le_time :: "nat \<Rightarrow> rat"
  le_format_exc :: "exn \<Rightarrow> string"
  le_strftime :: string
  le_import_mobilenet :: "unit outcome"
  le_build_mobilenet :: "unit outcome"
  le_selftest_mobilenet :: "unit outcome"
  le_import_object_detection :: "unit outcome"
  le_tesseract_version :: "string outcome"
  le_tesseract_languages :: "string list outcome"

record load_result =
  lr_success :: bool
  lr_model :: "string option"
  lr_elapsed :: "rat option"
  lr_error :: "string option"
  lr_stack_trace :: "string option"
  lr_message :: string
  lr_version :: "string option"
  lr_languages :: "string list option"
  lr_timestamp :: "string option"

definition new_model_loader :: "config option \<Rightarrow> world \<Rightarrow> model_loader \<times> world" where
  "new_model_loader cfg w =
     (\<lparr> ld_config = cfg,
        ld_models = Map.empty,
        ld_model_status =
          [''mobilenet'' \<mapsto> \<lparr> ms_loaded = False, ms_error = None, ms_time = None \<rparr>,
           ''cocossd'' \<mapsto> \<lparr> ms_loaded = False, ms_error = None, ms_time = None \<rparr>,
           ''tesseract'' \<mapsto> \<lparr> ms_loaded = False, ms_error = None, ms_time = None \<rparr>] \<rparr>,
      w\<lparr>w_calls := w_calls w @ [NewModelLoader]\<rparr>)"

definition get_model_config :: "model_loader \<Rightarrow> string \<Rightarrow> model_config" where
  \<comment> \<open>\<open>self.config.get("models", {}).get(model_name, {})\<close>\<close>
  "get_model_config ld name =
     (case ld_config ld of
        None \<Rightarrow> \<lparr> mc_enabled = None, mc_language = None, mc_config = None \<rparr>
      | Some cfg \<Rightarrow>
          (case cfg_models cfg name of
             None \<Rightarrow> \<lparr> mc_enabled = None, mc_language = None, mc_config = None \<rparr>
           | Some mc \<Rightarrow> mc))"

definition enabled :: "model_loader \<Rightarrow> string \<Rightarrow> bool" where
  "enabled ld name = get_or (mc_enabled (get_model_config ld name)) True"

definition disabled_result :: load_result where
  "disabled_result =
     \<lparr> lr_success = False, lr_model = None, lr_elapsed = None, lr_error = None,
       lr_stack_trace = None, lr_message = msg_disabled, lr_version = None,
       lr_languages = None, lr_timestamp = None \<rparr>"

definition read_clock :: "loader_env \<Rightarrow> world \<Rightarrow> rat \<times> world" where
  "read_clock env w = (le_time env (w_clock_reads w), w\<lparr>w_clock_reads := Suc (w_clock_reads w)\<rparr>)"

definition call :: "backend_call \<Rightarrow> world \<Rightarrow> world" where
  "call c w = w\<lparr>w_calls := w_calls w @ [c]\<rparr>"

definition loaded :: "loader_env \<Rightarrow> string \<Rightarrow> model_handle \<Rightarrow> rat \<Rightarrow> model_loader \<Rightarrow> world \<Rightarrow>
    load_result \<times> model_loader \<times> world" where
  \<comment> \<open>the end of the inner \<open>try\<close> of each loader: store the model, read the clock, set
      the status, return\<close>
  "loaded env name handle start_time ld w =
     (let (t, w') = read_clock env w; elapsed = float_sub t start_time in
      (\<lparr> lr_success = True, lr_model = Some name, lr_elapsed = Some elapsed,
         lr_error = None, lr_stack_trace = None,
         lr_message = msg_loaded_prefix @ format_2f elapsed @ msg_loaded_suffix,
         lr_version = None, lr_languages = None, lr_timestamp = None \<rparr>,
       ld\<lparr> ld_models := (ld_models ld)(name \<mapsto> handle),
           ld_model_status := (ld_model_status ld)
             (name \<mapsto> \<lparr> ms_loaded = True, ms_error = None, ms_time = Some elapsed \<rparr>) \<rparr>,
       w'))"

definition load_failed :: "loader_env \<Rightarrow> string \<Rightarrow> exn \<Rightarrow> rat \<Rightarrow> model_loader \<Rightarrow> world \<Rightarrow>
    load_result \<times> model_loader \<times> world" where
  \<comment> \<open>the handler \<open>except Exception\<close> of each loader\<close>
  "load_failed env name e start_time ld w =
     (let (t, w') = read_clock env w; elapsed = float_sub t start_time;
          error_msg = str_of_exn e
      in
      (\<lparr> lr_success = False, lr_model = Some name, lr_elapsed = Some elapsed,
         lr_error = Some error_msg, lr_stack_trace = Some (le_format_exc env e),
         lr_message = msg_load_failed @ error_msg,
         lr_version = None, lr_languages = None, lr_timestamp = None \<rparr>,
       ld\<lparr> ld_model_status := (ld_model_status ld)
             (name \<mapsto> \<lparr> ms_loaded = False, ms_error = Some error_msg,
                          ms_time = Some elapsed \<rparr>) \<rparr>,
       w'))"

definition wrap_import_error :: "string \<Rightarrow> unit outcome \<Rightarrow> unit outcome" where
  \<comment> \<open>\<open>except ImportError as e: raise ModelLoadError(f"...: {e}")\<close>; any other exception
      passes through\<close>
  "wrap_import_error prefix r =
     (case r of
        Raises (ImportError s) \<Rightarrow> Raises (OtherError (prefix @ s))
      | _ \<Rightarrow> r)"

definition mobilenet_steps :: "loader_env \<Rightarrow> world \<Rightarrow> unit outcome \<times> world" where
  \<comment> \<open>import the module, build the model with its weights, run it once on a dummy input;
      the first call that raises ends the sequence\<close>
  "mobilenet_steps env w =
     (let w1 = call ImportMobileNet w in
      case le_import_mobilenet env of
        Raises e \<Rightarrow> (Raises e, w1)
      | Returns _ \<Rightarrow>
          (let w2 = call BuildMobileNet w1 in
           case le_build_mobilenet env of
             Raises e \<Rightarrow> (Raises e, w2)
           | Returns _ \<Rightarrow>
               (let w3 = call SelfTestMobileNet w2 in (le_selftest_mobilenet env, w3))))"

definition load_mobilenet_model :: "loader_env \<Rightarrow> model_loader \<Rightarrow> world \<Rightarrow>
    load_result \<times> model_loader \<times> world" where
  "load_mobilenet_model env ld w =
     (if \<not> enabled ld ''mobilenet'' then (disabled_result, ld, w)
      else
        let (start_time, w0) = read_clock env w in
        if \<not> le_tf_available env
        then load_failed env ''mobilenet'' (OtherError msg_no_tensorflow) start_time ld w0
        else
          (case mobilenet_steps env w0 of (r, w1) \<Rightarrow>
             (case wrap_import_error msg_no_mobilenet r of
                Returns _ \<Rightarrow> loaded env ''mobilenet'' MobileNetV2 start_time ld w1
              | Raises e \<Rightarrow> load_failed env ''mobilenet'' e start_time ld w1)))"

definition load_cocossd_model :: "loader_env \<Rightarrow> model_loader \<Rightarrow> world \<Rightarrow>
    load_result \<times> model_loader \<times> world" where
  "load_cocossd_model env ld w =
     (if \<not> enabled ld ''cocossd'' then (disabled_result, ld, w)
      else
        let (start_time, w0) = read_clock env w in
        if \<not> le_tf_available env
        then load_failed env ''cocossd'' (OtherError msg_no_tensorflow) start_time ld w0
        else
          (let w1 = call ImportObjectDetection w0 in
           case wrap_import_error msg_no_cocossd (le_import_object_detection env) of
             Returns _ \<Rightarrow> loaded env ''cocossd'' DummyCocoSSD start_time ld w1
           | Raises e \<Rightarrow> load_failed env ''cocossd'' e start_time ld w1))"

definition tesseract_steps :: "loader_env \<Rightarrow> world \<Rightarrow> (string \<times> string list) outcome \<times> world" where
  \<comment> \<open>ask for the version, then for the languages; the inner handler is
      \<open>except Exception\<close>, so every exception is wrapped\<close>
  "tesseract_steps env w =
     (let w1 = call TesseractVersion w in
      case le_tesseract_version env of
        Raises e \<Rightarrow> (Raises (OtherError (msg_no_tesseract_info @ str_of_exn e)), w1)
      | Returns v \<Rightarrow>
          (let w2 = call TesseractLanguages w1 in
           case le_tesseract_languages env of
             Raises e \<Rightarrow> (Raises (OtherError (msg_no_tesseract_info @ str_of_exn e)), w2)
           | Returns ls \<Rightarrow> (Returns (v, ls), w2)))"

definition load_tesseract_model :: "loader_env \<Rightarrow> model_loader \<Rightarrow> world \<Rightarrow>
    load_result \<times> model_loader \<times> world" where
  "load_tesseract_model env ld w =
     (if \<not> enabled ld ''tesseract'' then (disabled_result, ld, w)
      else
        let (start_time, w0) = read_clock env w in
        if \<not> le_tesseract_available env
        then load_failed env ''tesseract'' (OtherError msg_no_pytesseract) start_time ld w0
        else
          (case tesseract_steps env w0 of
             (Raises e, w1) \<Rightarrow> load_failed env ''tesseract'' e start_time ld w1
           | (Returns (v, ls), w1) \<Rightarrow>
               (case loaded env ''tesseract''
                       (Tesseract v ls (get_or (mc_config (get_model_config ld ''tesseract''))
                                          ''--psm 3''))
                       start_time ld w1 of
                  (r, ld', w2) \<Rightarrow> (r\<lparr>lr_version := Some v, lr_languages := Some ls\<rparr>, ld', w2))))"

text \<open>
  A backend call is silent when it raises an exception that is not an \<open>ImportError\<close> and
  whose text is empty, as \<open>raise RuntimeError()\<close> or a failed \<open>assert\<close> without a message
  does. \<open>raised_without_text\<close> tells whether a call that the loader of the named backend
  makes, outside the handlers that put a prefix before the text, is silent.
\<close>

definition silent :: "'a outcome \<Rightarrow> bool" where
  "silent r \<longleftrightarrow> r = Raises (OtherError [])"

definition raised_without_text :: "loader_env \<Rightarrow> string \<Rightarrow> bool" where
  "raised_without_text env name \<longleftrightarrow>
     name = ''mobilenet'' \<and>
       (silent (le_import_mobilenet env) \<or> silent (le_build_mobilenet env) \<or>
        silent (le_selftest_mobilenet env)) \<or>
     name = ''cocossd'' \<and> silent (le_import_object_detection env)"

text \<open>
  What the two ends of a loader do: \<open>elapsed\<close> is the float difference of the clock read
  now and the start time; the result and the status of the backend carry it.
\<close>

definition settled :: "loader_env \<Rightarrow> string \<Rightarrow> rat \<Rightarrow> nat \<Rightarrow> load_result \<times> model_loader \<times> world \<Rightarrow> bool"
  where
  "settled env name start_time reads out \<longleftrightarrow>
     (case out of (r, ld', w') \<Rightarrow>
        lr_elapsed r = Some (float_sub (le_time env reads) start_time) \<and>
        lr_model r = Some name \<and>
        ld_model_status ld' name =
          Some \<lparr> ms_loaded = lr_success r, ms_error = lr_error r,
                 ms_time = Some (float_sub (le_time env reads) start_time) \<rparr> \<and>
        w_clock_reads w' = Suc reads)"

text \<open>The outcome of a loader, as the theorem on loading one backend states it.\<close>

definition load_outcome_ok :: "loader_env \<Rightarrow> string \<Rightarrow> world \<Rightarrow> load_result \<times> model_loader \<times> world \<Rightarrow> bool"
  where
  "load_outcome_ok env name w out \<longleftrightarrow>
     settled env name (le_time env (w_clock_reads w)) (Suc (w_clock_reads w)) out \<and>
     (if lr_success (fst out) then lr_error (fst out) = None
      else \<exists>msg. lr_error (fst out) = Some msg \<and>
             (msg = [] \<longrightarrow> name \<noteq> ''tesseract'' \<and> raised_without_text env name))"

subsection \<open>load_models\<close>

fun dict_set :: "(string \<times> 'v) list \<Rightarrow> string \<Rightarrow> 'v \<Rightarrow> (string \<times> 'v) list" where
  \<comment> \<open>\<open>results[key] = value\<close> on a dictionary that keeps insertion order\<close>
  "dict_set [] k v = [(k, v)]"
| "dict_set ((k', v') # kvs) k v = (if k' = k then (k, v) # kvs else (k', v') # dict_set kvs k v)"

definition unknown_model_result :: "string \<Rightarrow> load_result" where
  "unknown_model_result name =
     \<lparr> lr_success = False, lr_model = Some name, lr_elapsed = None,
       lr_error = Some msg_unknown_model, lr_stack_trace = None,
       lr_message = msg_model_quote @ name @ msg_not_recognised,
       lr_version = None, lr_languages = None, lr_timestamp = None \<rparr>"

definition load_named :: "loader_env \<Rightarrow> string \<Rightarrow> model_loader \<Rightarrow> world \<Rightarrow>
    load_result \<times> model_loader \<times> world" where
  \<comment> \<open>the body of the loop of \<open>load_models\<close>\<close>
  "load_named env name ld w =
     (if name = ''mobilenet'' then load_mobilenet_model env ld w
      else if name = ''cocossd'' then load_cocossd_model env ld w
      else if name = ''tesseract'' then load_tesseract_model env ld w
      else (unknown_model_result name, ld, w))"

fun load_each :: "loader_env \<Rightarrow> string list \<Rightarrow> (string \<times> load_result) list \<Rightarrow> model_loader \<Rightarrow>
    world \<Rightarrow> (string \<times> load_result) list \<times> model_loader \<times> world" where
  "load_each env [] results ld w = (results, ld, w)"
| "load_each env (name # names) results ld w =
     (case load_named env name ld w of
        (r, ld', w') \<Rightarrow> load_each env names (dict_set results name r) ld' w')"

definition load_models :: "loader_env \<Rightarrow> string list option \<Rightarrow> model_loader \<Rightarrow> world \<Rightarrow>
    (string \<times> load_result) list \<times> model_loader \<times> world" where
  "load_models env models_to_load ld w =
     load_each env (get_or models_to_load [''mobilenet'', ''cocossd'', ''tesseract'']) [] ld w"

subsection \<open>test_model_loading\<close>

record all_result =
  al_success :: bool
  al_models :: "(string \<times> load_result) list"
  al_message :: string
  al_timestamp :: string

datatype test_result = OneModel load_result | AllModels all_result

text \<open>
  \<open>config and config.get(...).get(key, default)\<close>: without a configuration the value is
  false. An empty dictionary is false as well; here it is a configuration without the
  key \<open>headless_mode\<close>, for which \<open>headless_mode\<close> is false, so that the test below, a
  conjunction, comes out the same.
\<close>

definition headless_mode :: "config option \<Rightarrow> bool" where
  "headless_mode cfg = (case cfg of None \<Rightarrow> False | Some c \<Rightarrow> get_or (cfg_headless_mode c) False)"

definition mock_in_headless :: "config option \<Rightarrow> bool" where
  "mock_in_headless cfg =
     (case cfg of None \<Rightarrow> False | Some c \<Rightarrow> get_or (cfg_mock_in_headless c) True)"

definition skipped_result :: "string \<Rightarrow> string \<Rightarrow> load_result" where
  \<comment> \<open>an entry of \<open>models\<close> in the headless answer for all models\<close>
  "skipped_result name timestamp =
     \<lparr> lr_success = True, lr_model = Some name, lr_elapsed = None, lr_error = None,
       lr_stack_trace = None, lr_message = msg_skipped, lr_version = None,
       lr_languages = None, lr_timestamp = Some timestamp \<rparr>"

definition test_model_loading :: "loader_env \<Rightarrow> string \<Rightarrow> bool \<Rightarrow> config option \<Rightarrow> world \<Rightarrow>
    test_result \<times> world" where
  "test_model_loading env model_name force_load cfg w =
     (if model_name \<notin> set [''mobilenet'', ''cocossd'', ''tesseract'', ''all'']
      then (OneModel (unknown_model_result model_name), w)
      else if headless_mode cfg \<and> mock_in_headless cfg \<and> \<not> force_load then
        (let timestamp = le_strftime env in
         if model_name = ''all'' then
           (AllModels \<lparr> al_success = True,
                  al_models =
                    [(''mobilenet'', skipped_result ''mobilenet'' timestamp),
                     (''cocossd'', skipped_result ''cocossd'' timestamp),
                     (''tesseract'', skipped_result ''tesseract'' timestamp)],
                  al_message = msg_all_skipped,
                  al_timestamp = timestamp \<rparr>, w)
         else
           (OneModel \<lparr> lr_success = True, lr_model = Some model_name, lr_elapsed = None,
                  lr_error = None, lr_stack_trace = None,
                  lr_message = msg_model_quote @ model_name @ msg_one_skipped,
                  lr_version = None, lr_languages = None,
                  lr_timestamp = Some timestamp \<rparr>, w))
      else
        (case new_model_loader cfg w of (loader, w0) \<Rightarrow>
           if model_name = ''all'' then
             (case load_models env None loader w0 of (results, loader', w1) \<Rightarrow>
                (AllModels \<lparr> al_success = list_all (\<lambda>(name, r). lr_success r) results,
                       al_models = results,
                       al_message = msg_all_done,
                       al_timestamp = le_strftime env \<rparr>, w1))
           else
             (case load_named env model_name loader w0 of (r, loader', w1) \<Rightarrow> (OneModel r, w1))))"

section \<open>Sample inputs\<close>

text \<open>
  Concrete inputs for the evaluations below: the details of a white 640 by 480 PNG, and
  those of a 640 by 480 JPEG whose mean brightness is 178.5 of 255, which is 70 percent,
  and whose standard deviation is 80.
\<close>

definition white_color_info :: color_info where
  "white_color_info =
     \<lparr> ci_mode = ''RGB'', ci_has_alpha = False, ci_is_grayscale = False, ci_is_rgb = True,
       ci_avg_color_hex = Some ''#ffffff'', ci_brightness_percent = Some 100,
       ci_color_variance = Some 0 \<rparr>"

definition grey_color_info :: color_info where
  "grey_color_info =
     \<lparr> ci_mode = ''RGB'', ci_has_alpha = False, ci_is_grayscale = False, ci_is_rgb = True,
       ci_avg_color_hex = Some ''#b2b2b2'',
       ci_brightness_percent = Some (float_mul (float_div (Fract 357 2) 255) 100),
       ci_color_variance = Some 80 \<rparr>"

definition white_png :: image_details where
  "white_png =
     \<lparr> id_file_info =
         \<lparr> fi_filename = ''test_screenshot.png'', fi_filepath = ''/tmp/test_screenshot.png'',
           fi_filesize_bytes = 2359, fi_extension = ''.png'' \<rparr>,
       id_image_info = make_image_info 640 480 ''PNG'' white_color_info \<rparr>"

definition grey_jpeg :: image_details where
  "grey_jpeg =
     \<lparr> id_file_info =
         \<lparr> fi_filename = ''photo.jpg'', fi_filepath = ''/tmp/photo.jpg'',
           fi_filesize_bytes = 51200, fi_extension = ''.jpg'' \<rparr>,
       id_image_info = make_image_info 640 480 ''JPEG'' grey_color_info \<rparr>"

text \<open>
  A detection result with three objects whose confidences are the floats 0.9, 0.8 and
  0.7, as in the example of the specification.
\<close>

definition three_detections :: detection_results where
  "three_detections =
     \<lparr> dr_error = None,
       dr_objects = Some
         [\<lparr> obj_label = ''person'', obj_confidence = lit 9 10,
            obj_bbox = \<lparr> bb_x = 10, bb_y = 20, bb_width = 100, bb_height = 200 \<rparr> \<rparr>,
          \<lparr> obj_label = ''laptop'', obj_confidence = lit 8 10,
            obj_bbox = \<lparr> bb_x = 150, bb_y = 220, bb_width = 120, bb_height = 80 \<rparr> \<rparr>,
          \<lparr> obj_label = ''person'', obj_confidence = lit 7 10,
            obj_bbox = \<lparr> bb_x = 300, bb_y = 40, bb_width = 90, bb_height = 210 \<rparr> \<rparr>],
       dr_count = Some 3,
       dr_image_path = Some ''test_screenshot.png'',
       dr_model = Some ''yolov8'' \<rparr>"

text \<open>
  A detector library whose inference raises an exception without a message, and one whose
  model file cannot be loaded.
\<close>

definition silent_yolo_env :: yolo_env where
  "silent_yolo_env =
     \<lparr> ye_available = True,
       ye_construct = (\<lambda>path. Returns ()),
       ye_infer = (\<lambda>path conf. Raises (OtherError [])) \<rparr>"

definition broken_yolo_env :: yolo_env where
  "broken_yolo_env =
     \<lparr> ye_available = True,
       ye_construct = (\<lambda>path. Raises (OtherError ''No such file or directory'')),
       ye_infer = (\<lambda>path conf. Returns []) \<rparr>"

text \<open>
  A detector library that finds one person, and a machine on which \<open>ultralytics\<close> is not
  installed. \<open>sample_analysis_env\<close> is a pipeline around a detector library: the image
  is the white 640 by 480 PNG and every write succeeds.
\<close>

definition working_yolo_env :: yolo_env where
  "working_yolo_env =
     \<lparr> ye_available = True,
       ye_construct = (\<lambda>path. Returns ()),
       ye_infer = (\<lambda>path conf. Returns
         [\<lparr> rr_boxes = [\<lparr> rb_x1 = 10, rb_y1 = 20, rb_x2 = 110, rb_y2 = 220,
                           rb_conf = lit 9 10, rb_cls = 0 \<rparr>],
            rr_names = [0 \<mapsto> ''person''] \<rparr>]) \<rparr>"

definition missing_yolo_env :: yolo_env where
  "missing_yolo_env =
     \<lparr> ye_available = False,
       ye_construct = (\<lambda>path. Raises (OtherError ''name YOLO is not defined'')),
       ye_infer = (\<lambda>path conf. Raises (OtherError ''name YOLO is not defined'')) \<rparr>"

definition sample_analysis_env :: "yolo_env \<Rightarrow> analysis_env" where
  "sample_analysis_env yolo =
     \<lparr> ae_image_details = (\<lambda>path. Returns white_png),
       ae_yolo = yolo,
       ae_elapsed_time = 1 / 8,
       ae_isoformat = ''2025-03-01T10:00:00.000000'',
       ae_strftime = ''20250301_100000'',
       ae_stem = (\<lambda>path. ''test_screenshot''),
       ae_path_join = (\<lambda>directory name. directory @ ''/'' @ name),
       ae_ensure_output_dir = (\<lambda>directory. Returns ()),
       ae_write_json = (\<lambda>path results. Returns ()),
       ae_visual_feedback = (\<lambda>path results file. Returns ()) \<rparr>"

text \<open>
  Three machines for the loader. On the first nothing is installed. On the second
  TensorFlow is there, but building MobileNet raises without a message. The third is the
  second with a clock that is set back by a second between two readings.
\<close>

definition bare_env :: loader_env where
  "bare_env =
     \<lparr> le_tf_available = False,
       le_tesseract_available = False,
       le_time = (\<lambda>n. 100 + of_nat n / 4),
       le_format_exc = (\<lambda>e. ''Traceback (most recent call last): ...''),
       le_strftime = ''2025-03-01 10:00:00'',
       le_import_mobilenet = Raises (ImportError ''No module named tensorflow''),
       le_build_mobilenet = Raises (ImportError ''No module named tensorflow''),
       le_selftest_mobilenet = Raises (ImportError ''No module named tensorflow''),
       le_import_object_detection = Raises (ImportError ''No module named object_detection''),
       le_tesseract_version = Raises (ImportError ''No module named pytesseract''),
       le_tesseract_languages = Raises (ImportError ''No module named pytesseract'') \<rparr>"

definition silent_env :: loader_env where
  "silent_env =
     bare_env \<lparr> le_tf_available := True,
                le_import_mobilenet := Returns (),
                le_build_mobilenet := Raises (OtherError []) \<rparr>"

definition set_back_env :: loader_env where
  "set_back_env = silent_env \<lparr> le_time := (\<lambda>n. 100 - of_nat n) \<rparr>"

definition fresh_loader :: model_loader where
  "fresh_loader = fst (new_model_loader None \<lparr> w_clock_reads = 0, w_calls = [] \<rparr>)"

definition fresh_world :: world where
  "fresh_world = snd (new_model_loader None \<lparr> w_clock_reads = 0, w_calls = [] \<rparr>)"

definition headless_config :: config where
  "headless_config =
     \<lparr> cfg_headless_mode = Some True, cfg_mock_in_headless = Some True,
       cfg_models = Map.empty \<rparr>"

section \<open>Rounding to binary64\<close>

text \<open>
  The rounding of a quotient of integers is within one half of it; the exponent found by
  \<open>floor_log2\<close> is not above the number; so a rounded number is within the fraction
  \<open>2 ^ - 53\<close> of the number itself, has its sign, and integers below \<open>2 ^ 53\<close> are not
  changed.
\<close>

lemma round_half_even_div_int_error:
  assumes "0 < d"
  shows "\<bar>2 * (round_half_even_div n d * d - n)\<bar> \<le> d"
proof -
  define f where "f = n div d"
  define r where "r = n mod d"
  have n: "n = f * d + r" by (simp add: f_def r_def)
  have r: "0 \<le> r" "r < d" using assms by (simp_all add: r_def)
  have m: "round_half_even_div n d =
      (if 2 * r < d then f else if d < 2 * r then f + 1 else if even f then f else f + 1)"
    by (simp add: round_half_even_div_def f_def r_def Let_def)
  have a: "f * d - n = - r" and b: "(f + 1) * d - n = d - r"
    by (simp_all add: n algebra_simps)
  have "round_half_even_div n d = f \<and> 2 * r \<le> d \<or>
        round_half_even_div n d = f + 1 \<and> d \<le> 2 * r"
    unfolding m by auto
  then show ?thesis
  proof
    assume "round_half_even_div n d = f \<and> 2 * r \<le> d"
    then show ?thesis using r a by simp
  next
    assume "round_half_even_div n d = f + 1 \<and> d \<le> 2 * r"
    then show ?thesis using r b by simp
  qed
qed

lemma round_half_even_div_error:
  assumes "0 < d"
  shows "\<bar>of_int (round_half_even_div n d) - (of_int n / of_int d :: rat)\<bar> \<le> 1 / 2"
proof -
  define X :: rat where "X = of_int (round_half_even_div n d) * of_int d - of_int n"
  have "(of_int \<bar>2 * (round_half_even_div n d * d - n)\<bar> :: rat) \<le> of_int d"
    using round_half_even_div_int_error [OF assms, of n] by (simp only: of_int_le_iff)
  then have "\<bar>2 * X\<bar> \<le> of_int d"
    by (simp add: X_def)
  then have "2 * \<bar>X\<bar> \<le> of_int d"
    by (simp add: abs_mult)
  then have "\<bar>X\<bar> / of_int d \<le> 1 / 2"
    using assms by (simp add: field_simps)
  moreover have "of_int (round_half_even_div n d) - (of_int n / of_int d :: rat) = X / of_int d"
    using assms by (simp add: X_def field_simps)
  ultimately show ?thesis
    using assms by (simp add: abs_divide)
qed

lemma round_half_even_div_nonneg:
  assumes "0 < d" "0 \<le> n"
  shows "0 \<le> round_half_even_div n d"
proof -
  have "0 \<le> n div d" using assms by (simp add: pos_imp_zdiv_nonneg_iff)
  then show ?thesis by (simp add: round_half_even_div_def Let_def)
qed


lemma pow2_nat: "0 \<le> k \<Longrightarrow> (2::rat) ^ nat k = 2 powi k"
  by (simp add: power_int_def)

lemma bitlen_lower_rat:
  assumes "0 < p"
  shows "(2::rat) powi (bitlen p - 1) \<le> of_int p"
proof -
  have "0 < bitlen p"
    using assms bitlen_eq_zero_iff [of p] bitlen_nonneg [of p] by linarith
  then have k: "0 \<le> bitlen p - 1" by simp
  have "(2::int) ^ nat (bitlen p - 1) \<le> p"
    using bitlen_bounds [OF assms] by simp
  then have "(of_int ((2::int) ^ nat (bitlen p - 1)) :: rat) \<le> of_int p"
    by (simp only: of_int_le_iff)
  then show ?thesis
    using k by (simp add: power_int_def)
qed

lemma bitlen_upper_rat:
  assumes "0 < q"
  shows "(of_int q :: rat) \<le> 2 powi (bitlen q)"
proof -
  have "q < 2 ^ nat (bitlen q)"
    using bitlen_bounds [OF assms] by simp
  then have "(of_int q :: rat) < of_int ((2::int) ^ nat (bitlen q))"
    by (simp only: of_int_less_iff)
  then show ?thesis
    using bitlen_nonneg [of q] by (simp add: power_int_def)
qed

lemma floor_log2_base:
  assumes "0 < p" "0 < q"
  shows "(2::rat) powi (bitlen p - bitlen q - 1) \<le> of_int p / of_int q"
proof -
  have "(2::rat) powi (bitlen p - bitlen q - 1) = 2 powi (bitlen p - 1) / 2 powi (bitlen q)"
    by (simp add: power_int_diff)
  also have "\<dots> \<le> of_int p / 2 powi (bitlen q)"
    using bitlen_lower_rat [OF assms(1)] by (simp add: divide_right_mono)
  also have "\<dots> \<le> of_int p / of_int q"
    using bitlen_upper_rat [OF assms(2)] assms by (simp add: frac_le)
  finally show ?thesis .
qed

lemma floor_log2_lower:
  assumes "0 < p" "0 < q"
  shows "(2::rat) powi (floor_log2 p q) \<le> of_int p / of_int q"
proof -
  define d where "d = bitlen p - bitlen q"
  have base: "(2::rat) powi (d - 1) \<le> of_int p / of_int q"
    using floor_log2_base [OF assms] by (simp add: d_def)
  have up: "q * 2 ^ nat d \<le> p \<Longrightarrow> 0 \<le> d \<Longrightarrow> (2::rat) powi d \<le> of_int p / of_int q"
  proof -
    assume a: "q * 2 ^ nat d \<le> p" and b: "0 \<le> d"
    from a have "(of_int (q * 2 ^ nat d) :: rat) \<le> of_int p" by (simp only: of_int_le_iff)
    then have "(of_int q :: rat) * 2 powi d \<le> of_int p" using b by (simp add: power_int_def)
    then show ?thesis using assms by (simp add: field_simps)
  qed
  have down: "q \<le> p * 2 ^ nat (- d) \<Longrightarrow> d < 0 \<Longrightarrow> (2::rat) powi d \<le> of_int p / of_int q"
  proof -
    assume a: "q \<le> p * 2 ^ nat (- d)" and b: "d < 0"
    from a have "(of_int q :: rat) \<le> of_int (p * 2 ^ nat (- d))" by (simp only: of_int_le_iff)
    then have "(of_int q :: rat) \<le> of_int p * 2 ^ nat (- d)" by simp
    then have "(of_int q :: rat) / 2 ^ nat (- d) \<le> of_int p"
      by (simp add: pos_divide_le_eq)
    then have "1 / 2 ^ nat (- d) \<le> (of_int p :: rat) / of_int q"
      using assms by (simp add: pos_le_divide_eq)
    moreover have "(2::rat) powi d = 1 / 2 ^ nat (- d)"
      using b by (simp add: power_int_def field_simps)
    ultimately show ?thesis by simp
  qed
  show ?thesis
    using base up down by (auto simp: floor_log2_def Let_def d_def [symmetric])
qed


lemma half_ulp:
  assumes "(2::rat) powi e \<le> y"
  shows "1 / 2 * 2 powi (e - 52) \<le> y / 2 ^ 53"
proof -
  have "(1 / 2 :: rat) * 2 powi (e - 52) = 2 powi e / 2 ^ 53"
    by (simp add: power_int_diff)
  also have "\<dots> \<le> y / 2 ^ 53"
    using assms by (simp add: divide_right_mono)
  finally show ?thesis .
qed

lemma b64_decompose:
  assumes x: "quotient_of x = (p, q)" and p: "p \<noteq> 0"
  shows "\<exists>mag. b64 x = of_int (sgn p) * mag \<and> 0 \<le> mag \<and>
           \<bar>mag - of_int \<bar>p\<bar> / of_int q\<bar> \<le> (of_int \<bar>p\<bar> / of_int q) / 2 ^ 53"
proof -
  define a where "a = \<bar>p\<bar>"
  define y :: rat where "y = of_int a / of_int q"
  define u :: rat where "u = y / 2 ^ 53"
  define e where "e = floor_log2 a q"
  define k where "k = 52 - e"
  have q: "0 < q" using x by (rule quotient_of_denom_pos)
  have a: "0 < a" using p by (simp add: a_def)
  have low: "(2::rat) powi e \<le> y"
    unfolding e_def y_def by (rule floor_log2_lower [OF a q])
  have ulp: "1 / 2 * (2::rat) powi (- k) \<le> u"
    unfolding u_def using half_ulp [OF low] by (simp add: k_def)
  have unf: "b64 x =
      (if 0 \<le> k then Fract (sgn p * round_half_even_div (a * 2 ^ nat k) q) (2 ^ nat k)
       else Fract (sgn p * round_half_even_div a (q * 2 ^ nat (- k)) * 2 ^ nat (- k)) 1)"
    using x p by (simp add: b64_def Let_def a_def k_def e_def)
  have "\<exists>mag. b64 x = of_int (sgn p) * mag \<and> 0 \<le> mag \<and> \<bar>mag - y\<bar> \<le> u"
  proof (cases "0 \<le> k")
    case True
    define c :: rat where "c = 2 ^ nat k"
    define n where "n = round_half_even_div (a * 2 ^ nat k) q"
    define mag :: rat where "mag = of_int n / c"
    have c: "0 < c" by (simp add: c_def)
    have b: "b64 x = of_int (sgn p) * mag"
      using True by (simp add: unf n_def mag_def c_def Fract_of_int_quotient)
    have n0: "0 \<le> n"
      unfolding n_def using a q by (intro round_half_even_div_nonneg) simp_all
    have "\<bar>of_int n - (of_int (a * 2 ^ nat k) / of_int q :: rat)\<bar> \<le> 1 / 2"
      unfolding n_def by (rule round_half_even_div_error [OF q])
    then have r: "\<bar>of_int n - y * c\<bar> \<le> 1 / 2"
      by (simp add: y_def c_def)
    have "mag - y = (of_int n - y * c) / c"
      using c by (simp add: mag_def field_simps)
    then have "\<bar>mag - y\<bar> = \<bar>of_int n - y * c\<bar> / c"
      using c by (simp add: abs_divide)
    also have "\<dots> \<le> (1 / 2) / c"
      using r c by (intro divide_right_mono) simp_all
    also have "\<dots> = 1 / 2 * 2 powi (- k)"
      using True by (simp add: c_def power_int_def field_simps)
    also have "\<dots> \<le> u" by (rule ulp)
    finally have "\<bar>mag - y\<bar> \<le> u" .
    moreover have "0 \<le> mag" using n0 c by (simp add: mag_def)
    ultimately show ?thesis using b by blast
  next
    case False
    define c :: rat where "c = 2 ^ nat (- k)"
    define n where "n = round_half_even_div a (q * 2 ^ nat (- k))"
    define mag :: rat where "mag = of_int n * c"
    have c: "0 < c" by (simp add: c_def)
    have b: "b64 x = of_int (sgn p) * mag"
      using False by (simp add: unf n_def mag_def c_def Fract_of_int_eq)
    have qm: "0 < q * 2 ^ nat (- k)" using q by simp
    have n0: "0 \<le> n"
      unfolding n_def using a qm by (intro round_half_even_div_nonneg) simp_all
    have "\<bar>of_int n - (of_int a / of_int (q * 2 ^ nat (- k)) :: rat)\<bar> \<le> 1 / 2"
      unfolding n_def by (rule round_half_even_div_error [OF qm])
    then have r: "\<bar>of_int n - y / c\<bar> \<le> 1 / 2"
      by (simp add: y_def c_def)
    have "mag - y = (of_int n - y / c) * c"
      using c by (simp add: mag_def field_simps)
    then have "\<bar>mag - y\<bar> = \<bar>of_int n - y / c\<bar> * c"
      using c by (simp add: abs_mult)
    also have "\<dots> \<le> (1 / 2) * c"
      using r c by (intro mult_right_mono) simp_all
    also have "\<dots> = 1 / 2 * 2 powi (- k)"
      using False by (simp add: c_def power_int_def)
    also have "\<dots> \<le> u" by (rule ulp)
    finally have "\<bar>mag - y\<bar> \<le> u" .
    moreover have "0 \<le> mag" using n0 c by (simp add: mag_def)
    ultimately show ?thesis using b by blast
  qed
  then show ?thesis
    by (simp add: y_def u_def a_def)
qed

lemma quotient_of_value:
  assumes "quotient_of x = (p, q)"
  shows "x = of_int p / of_int q" and "0 < q"
  using assms by (simp_all add: quotient_of_div quotient_of_denom_pos)

lemma b64_zero [simp]: "b64 0 = 0"
  by (simp add: b64_def)

lemma b64_error: "\<bar>b64 x - x\<bar> \<le> \<bar>x\<bar> / 2 ^ 53"
proof -
  obtain p q where pq: "quotient_of x = (p, q)" by (cases "quotient_of x")
  note v = quotient_of_value [OF pq]
  show ?thesis
  proof (cases "p = 0")
    case True
    then have "x = 0" using v by simp
    then show ?thesis by simp
  next
    case False
    obtain mag where m: "b64 x = of_int (sgn p) * mag" "0 \<le> mag"
      "\<bar>mag - of_int \<bar>p\<bar> / of_int q\<bar> \<le> (of_int \<bar>p\<bar> / of_int q) / 2 ^ 53"
      using b64_decompose [OF pq False] by blast
    have ax: "\<bar>x\<bar> = of_int \<bar>p\<bar> / of_int q"
      using v by (simp add: abs_divide)
    have sx: "x = of_int (sgn p) * \<bar>x\<bar>"
      using v by (simp add: ax sgn_if)
    have "b64 x - x = of_int (sgn p) * (mag - \<bar>x\<bar>)"
      using m(1) sx by (simp add: algebra_simps)
    then have "\<bar>b64 x - x\<bar> = \<bar>mag - \<bar>x\<bar>\<bar>"
      using False by (simp add: abs_mult sgn_if)
    then show ?thesis using m(3) ax by simp
  qed
qed

lemma b64_nonneg:
  assumes "0 \<le> x"
  shows "0 \<le> b64 x"
proof -
  obtain p q where pq: "quotient_of x = (p, q)" by (cases "quotient_of x")
  note v = quotient_of_value [OF pq]
  show ?thesis
  proof (cases "p = 0")
    case True
    then have "x = 0" using v by simp
    then show ?thesis by simp
  next
    case False
    obtain mag where m: "b64 x = of_int (sgn p) * mag" "0 \<le> mag"
      using b64_decompose [OF pq False] by blast
    have "0 \<le> p"
      using assms v by (simp add: zero_le_divide_iff)
    then show ?thesis using m by (simp add: sgn_if)
  qed
qed


lemma floor_log2_int:
  assumes "0 < a"
  shows "floor_log2 a 1 = bitlen a - 1"
proof -
  have b1: "bitlen 1 = 1" by (simp add: bitlen_alt_def)
  have "0 < bitlen a"
    using assms bitlen_eq_zero_iff [of a] bitlen_nonneg [of a] by linarith
  moreover have "2 ^ nat (bitlen a - 1) \<le> a"
    using bitlen_bounds [OF assms] by simp
  ultimately show ?thesis
    by (simp add: floor_log2_def b1 Let_def)
qed

lemma round_half_even_div_one [simp]: "round_half_even_div n 1 = n"
  by (simp add: round_half_even_div_def)

lemma b64_of_int:
  assumes "\<bar>n\<bar> < 2 ^ 53"
  shows "b64 (of_int n) = of_int n"
proof (cases "n = 0")
  case True
  then show ?thesis by simp
next
  case False
  define k where "k = 53 - bitlen \<bar>n\<bar>"
  have a: "0 < \<bar>n\<bar>" using False by simp
  have bl: "bitlen \<bar>n\<bar> \<le> 53"
    using assms bitlen_le_iff_power [of "\<bar>n\<bar>" 53] by simp
  then have k: "0 \<le> k" by (simp add: k_def)
  have kk: "52 - (bitlen \<bar>n\<bar> - 1) = k" by (simp add: k_def)
  have "b64 (of_int n) = Fract (sgn n * (\<bar>n\<bar> * 2 ^ nat k)) (2 ^ nat k)"
    using False k bl by (simp add: b64_def Let_def floor_log2_int [OF a] kk)
  also have "\<dots> = of_int n"
    by (simp add: Fract_of_int_quotient sgn_if)
  finally show ?thesis .
qed

lemma b64_error_u: "\<bar>b64 x - x\<bar> \<le> \<bar>x\<bar> * unit_roundoff"
  using b64_error [of x] by (simp add: unit_roundoff_def)

lemma float_sum_step:
  fixes s S x j u :: rat
  assumes e: "\<bar>s - S\<bar> \<le> j * j * u"
    and S: "0 \<le> S" "S \<le> j" and x: "0 \<le> x" "x \<le> 1"
    and u: "0 \<le> u" "j * u \<le> 1"
    and r: "\<bar>t - (s + x)\<bar> \<le> \<bar>s + x\<bar> * u"
  shows "\<bar>t - (S + x)\<bar> \<le> (j + 1) * (j + 1) * u"
proof -
  have j: "0 \<le> j" using S by simp
  have "\<bar>s + x\<bar> \<le> \<bar>S + x\<bar> + \<bar>s - S\<bar>" by simp
  also have "\<dots> \<le> (j + 1) + j * j * u" using e S x by simp
  finally have m: "\<bar>s + x\<bar> \<le> (j + 1) + j * j * u" .
  have "j * (j * u) \<le> j * 1" using u j by (intro mult_left_mono) simp_all
  then have jj: "j * j * u \<le> j" by (simp add: mult.assoc)
  then have "j * j * u * u \<le> j * u" using u by (intro mult_right_mono) simp_all
  then have q: "(j + 1 + j * j * u) * u \<le> (j + 1) * u + j * u"
    by (simp add: algebra_simps)
  have "\<bar>t - (S + x)\<bar> \<le> \<bar>t - (s + x)\<bar> + \<bar>s - S\<bar>" by simp
  also have "\<dots> \<le> \<bar>s + x\<bar> * u + j * j * u" using r e by simp
  also have "\<dots> \<le> (j + 1 + j * j * u) * u + j * j * u"
    using m u by (simp add: mult_right_mono)
  also have "\<dots> \<le> (j + 1) * u + j * u + j * j * u" using q by simp
  also have "\<dots> = (j + 1) * (j + 1) * u" by (simp add: algebra_simps)
  finally show ?thesis .
qed

lemma float_sum_error_aux:
  assumes "\<forall>x\<in>set xs. 0 \<le> x \<and> x \<le> 1"
    and "\<bar>s - S\<bar> \<le> of_nat j * of_nat j * unit_roundoff"
    and "0 \<le> S" "S \<le> of_nat j"
    and "of_nat (j + length xs) * unit_roundoff \<le> 1"
  shows "\<bar>foldl (\<lambda>s x. b64 (s + x)) s xs - (S + sum_list xs)\<bar>
           \<le> of_nat (j + length xs) * of_nat (j + length xs) * unit_roundoff"
  using assms
proof (induction xs arbitrary: s S j)
  case Nil
  then show ?case by simp
next
  case (Cons x xs)
  have u0: "0 \<le> unit_roundoff" by (simp add: unit_roundoff_def)
  have x: "0 \<le> x" "x \<le> 1" using Cons.prems(1) by simp_all
  have "(of_nat j :: rat) * unit_roundoff \<le> of_nat (j + length (x # xs)) * unit_roundoff"
    using u0 by (intro mult_right_mono) simp_all
  then have ju: "(of_nat j :: rat) * unit_roundoff \<le> 1"
    using Cons.prems(5) by simp
  have step: "\<bar>b64 (s + x) - (S + x)\<bar> \<le> (of_nat j + 1) * (of_nat j + 1) * unit_roundoff"
    by (rule float_sum_step [OF Cons.prems(2) Cons.prems(3) Cons.prems(4) x u0 ju b64_error_u])
  have "\<bar>foldl (\<lambda>s x. b64 (s + x)) (b64 (s + x)) xs - ((S + x) + sum_list xs)\<bar>
          \<le> of_nat (Suc j + length xs) * of_nat (Suc j + length xs) * unit_roundoff"
  proof (rule Cons.IH)
    show "\<forall>x\<in>set xs. 0 \<le> x \<and> x \<le> 1" using Cons.prems(1) by simp
    show "\<bar>b64 (s + x) - (S + x)\<bar> \<le> of_nat (Suc j) * of_nat (Suc j) * unit_roundoff"
      using step by (simp add: add.commute)
    show "0 \<le> S + x" using Cons.prems(3) x by simp
    show "S + x \<le> of_nat (Suc j)" using Cons.prems(4) x by simp
    show "of_nat (Suc j + length xs) * unit_roundoff \<le> 1" using Cons.prems(5) by simp
  qed
  then show ?case by (simp add: add.assoc)
qed

lemma float_sum_error:
  assumes "\<forall>x\<in>set xs. 0 \<le> x \<and> x \<le> 1"
    and "of_nat (length xs) * unit_roundoff \<le> 1"
  shows "\<bar>float_sum xs - sum_list xs\<bar> \<le> of_nat (length xs) * of_nat (length xs) * unit_roundoff"
  using float_sum_error_aux [of xs 0 0 0] assms by (simp add: float_sum_def)


lemma sum_list_unit_interval:
  fixes xs :: "rat list"
  assumes "\<forall>x\<in>set xs. 0 \<le> x \<and> x \<le> 1"
  shows "0 \<le> sum_list xs \<and> sum_list xs \<le> of_nat (length xs)"
  using assms by (induction xs) auto

lemma float_mean_error:
  assumes ne: "xs \<noteq> []"
    and conf: "\<forall>x\<in>set xs. 0 \<le> x \<and> x \<le> 1"
    and len: "length xs \<le> 2 ^ 32"
  shows "\<bar>float_div (float_sum xs) (float_of_int (int (length xs)))
           - sum_list xs / of_nat (length xs)\<bar>
         \<le> (of_nat (length xs) + 2) * unit_roundoff"
proof -
  define n :: rat where "n = of_nat (length xs)"
  define u where "u = unit_roundoff"
  define s where "s = float_sum xs"
  define S where "S = sum_list xs"
  have n1: "1 \<le> n" using ne by (cases xs) (simp_all add: n_def)
  have "(of_nat (length xs) :: rat) \<le> of_nat (2 ^ 32)"
    using len by (simp only: of_nat_le_iff)
  then have n32: "n \<le> 2 ^ 32" by (simp add: n_def)
  have u0: "0 \<le> u" by (simp add: u_def unit_roundoff_def)
  have "n * u \<le> 2 ^ 32 * u" using n32 u0 by (intro mult_right_mono)
  also have "\<dots> \<le> 1" by (simp add: u_def unit_roundoff_def)
  finally have nu: "n * u \<le> 1" .
  have "\<bar>int (length xs)\<bar> < 2 ^ 53" using len by simp
  then have "b64 (of_int (int (length xs))) = of_int (int (length xs))"
    by (rule b64_of_int)
  then have fn: "float_of_int (int (length xs)) = n"
    by (simp add: float_of_int_def n_def)
  have SS: "0 \<le> S" "S \<le> n"
    using sum_list_unit_interval [OF conf] by (simp_all add: S_def n_def)
  have e: "\<bar>s - S\<bar> \<le> n * n * u"
    unfolding s_def S_def n_def u_def
    by (rule float_sum_error [OF conf]) (use nu in \<open>simp add: n_def u_def\<close>)
  have "n * (n * u) \<le> n * 1" using nu n1 by (intro mult_left_mono) simp_all
  then have nnu: "n * n * u \<le> n" by (simp add: mult.assoc)
  have "\<bar>s\<bar> \<le> \<bar>S\<bar> + \<bar>s - S\<bar>" by simp
  also have "\<dots> \<le> n + n" using SS e nnu by simp
  finally have s2: "\<bar>s\<bar> \<le> 2 * n" by simp
  then have "\<bar>s\<bar> / n \<le> 2" using n1 by (simp add: field_simps)
  then have sn: "\<bar>s / n\<bar> \<le> 2" using n1 by (simp add: abs_divide)
  have "\<bar>b64 (s / n) - s / n\<bar> \<le> \<bar>s / n\<bar> * u"
    unfolding u_def by (rule b64_error_u)
  also have "\<dots> \<le> 2 * u" using sn u0 by (intro mult_right_mono)
  finally have r: "\<bar>b64 (s / n) - s / n\<bar> \<le> 2 * u" .
  have "s / n - S / n = (s - S) / n" by (simp add: diff_divide_distrib)
  then have "\<bar>s / n - S / n\<bar> = \<bar>s - S\<bar> / n" using n1 by (simp add: abs_divide)
  also have "\<dots> \<le> (n * n * u) / n" using e n1 by (intro divide_right_mono) simp_all
  also have "\<dots> = n * u" using n1 by simp
  finally have d: "\<bar>s / n - S / n\<bar> \<le> n * u" .
  have "\<bar>b64 (s / n) - S / n\<bar> \<le> \<bar>b64 (s / n) - s / n\<bar> + \<bar>s / n - S / n\<bar>" by simp
  also have "\<dots> \<le> 2 * u + n * u" using r d by simp
  also have "\<dots> = (n + 2) * u" by (simp add: algebra_simps)
  finally show ?thesis
    by (simp add: float_div_def fn s_def S_def n_def u_def)
qed

lemma float_mean_within_1e6:
  assumes ne: "xs \<noteq> []"
    and conf: "\<forall>x\<in>set xs. 0 \<le> x \<and> x \<le> 1"
    and len: "length xs \<le> 2 ^ 32"
  shows "\<bar>float_div (float_sum xs) (float_of_int (int (length xs)))
           - sum_list xs / of_nat (length xs)\<bar> \<le> 1 / 10 ^ 6"
proof -
  have "(of_nat (length xs) :: rat) \<le> of_nat (2 ^ 32)"
    using len by (simp only: of_nat_le_iff)
  then have "(of_nat (length xs) + 2 :: rat) \<le> 2 ^ 32 + 2" by simp
  then have "(of_nat (length xs) + 2) * unit_roundoff \<le> (2 ^ 32 + 2) * unit_roundoff"
    by (intro mult_right_mono) (simp_all add: unit_roundoff_def)
  also have "\<dots> \<le> 1 / 10 ^ 6" by (simp add: unit_roundoff_def)
  finally show ?thesis
    using float_mean_error [OF assms] by simp
qed

section \<open>Aspect-ratio names\<close>

lemma find_ratio_table:
  "find P ratio_table =
     (if P (lit 133 100, name_4_3) then Some (lit 133 100, name_4_3)
      else if P (lit 178 100, name_16_9) then Some (lit 178 100, name_16_9)
      else if P (lit 16 10, name_16_10) then Some (lit 16 10, name_16_10)
      else if P (lit 185 100, name_185_1) then Some (lit 185 100, name_185_1)
      else if P (lit 235 100, name_235_1) then Some (lit 235 100, name_235_1)
      else if P (lit 10 10, name_1_1) then Some (lit 10 10, name_1_1)
      else if P (lit 75 100, name_3_4) then Some (lit 75 100, name_3_4)
      else if P (lit 56 100, name_9_16) then Some (lit 56 100, name_9_16)
      else None)"
  by (simp add: ratio_table_def)

text \<open>
  C4, as amended. The name is that of the first entry of the ordered table (1.33, 1.78,
  1.6, 1.85, 2.35, 1.0, 0.75, 0.56) that is within 0.03 of the ratio rounded to two
  decimals, the distance and the comparison being those of binary64 arithmetic; when no
  entry is, the name is the rounded ratio printed with two decimals and followed by
  \<open>:1\<close>.
\<close>

theorem aspect_ratio_name_first_match_on_rounded:
  "get_aspect_ratio_name ratio = table_ratio_name ratio"
  by (simp add: get_aspect_ratio_name_def table_ratio_name_def find_ratio_table Let_def)

text \<open>
  The claim as it is written takes the distance from the ratio itself. The ratio of a
  297 by 500 image is the float 0.594: it is 0.034 away from 0.56, and no entry of the
  table is within 0.03 of it, yet it rounds to 0.59 and the source names it 9:16.
\<close>

theorem aspect_ratio_name_distance_from_ratio_counterexample:
  "get_aspect_ratio_name (int_true_div 297 500) = name_9_16 \<and>
   claimed_ratio_name (int_true_div 297 500) = ''0.59:1'' \<and>
   get_aspect_ratio_name (int_true_div 297 500) \<noteq> claimed_ratio_name (int_true_div 297 500)"
  by code_simp

text \<open>
  Some values. 640 by 480 is 4:3 and 1920 by 1080 is 16:9. The comparison is made on
  floats: 1.63 is within 0.03 of 1.6, but 1.36 is not within 0.03 of 1.33, since the
  float difference 1.36 - 1.33 is 0.030000000000000027.
\<close>

lemma aspect_ratio_name_examples:
  "get_aspect_ratio_name (int_true_div 640 480) = name_4_3"
  "get_aspect_ratio_name (int_true_div 1920 1080) = name_16_9"
  "get_aspect_ratio_name (int_true_div 100 100) = name_1_1"
  "get_aspect_ratio_name (lit 163 100) = name_16_10"
  "get_aspect_ratio_name (lit 136 100) = ''1.36:1''"
  "get_aspect_ratio_name (int_true_div 1000 300) = ''3.33:1''"
  "get_aspect_ratio_name 0 = ''0.00:1''"
  by code_simp+

section \<open>The debug block\<close>

text \<open>
  C8, as amended. The comparisons of the source are strict: the brightness is bright above
  70 percent, medium above 30 and up to 70, dark up to 30; the colour variance is high
  above 80, medium above 40 and up to 80, low up to 40. A metric that the image details
  lack counts as 50.
\<close>

theorem debug_block_buckets_are_strict:
  "(let ca = dbg_color_analysis (make_debug_info mock model_used details);
        bp = get_or (ci_brightness_percent (ii_color_info (id_image_info details))) 50;
        cv = get_or (ci_color_variance (ii_color_info (id_image_info details))) 50
    in (ca_estimated_brightness ca = ''bright'' \<longleftrightarrow> 70 < bp) \<and>
       (ca_estimated_brightness ca = ''medium'' \<longleftrightarrow> 30 < bp \<and> bp \<le> 70) \<and>
       (ca_estimated_brightness ca = ''dark'' \<longleftrightarrow> bp \<le> 30) \<and>
       (ca_color_variance ca = ''high'' \<longleftrightarrow> 80 < cv) \<and>
       (ca_color_variance ca = ''medium'' \<longleftrightarrow> 40 < cv \<and> cv \<le> 80) \<and>
       (ca_color_variance ca = ''low'' \<longleftrightarrow> cv \<le> 40))"
  by (simp add: make_debug_info_def estimated_brightness_def color_variance_level_def Let_def)

lemma grey_metrics:
  "ci_brightness_percent grey_color_info = Some 70"
  "ci_color_variance grey_color_info = Some 80"
  by (simp_all add: grey_color_info_def) code_simp

text \<open>
  The claim as it is written puts 70 percent in bright and a variance of 80 in high. The
  source puts both in medium.
\<close>

theorem debug_block_at_least_counterexample:
  "ci_brightness_percent grey_color_info = Some 70 \<and>
   ci_color_variance grey_color_info = Some 80 \<and>
   ca_estimated_brightness (dbg_color_analysis (make_debug_info True ''mock'' grey_jpeg))
     = ''medium'' \<and>
   ca_color_variance (dbg_color_analysis (make_debug_info True ''mock'' grey_jpeg))
     = ''medium''"
  by (simp add: grey_metrics make_debug_info_def estimated_brightness_def
      color_variance_level_def get_or_def grey_jpeg_def make_image_info_def Let_def)

section \<open>Scaling a length by a fraction\<close>

lemma b64_upper:
  assumes "0 \<le> x"
  shows "b64 x \<le> x * (1 + unit_roundoff)"
proof -
  have "b64 x - x \<le> \<bar>b64 x - x\<bar>" by simp
  also have "\<dots> \<le> \<bar>x\<bar> * unit_roundoff" by (rule b64_error_u)
  finally show ?thesis using assms by (simp add: algebra_simps)
qed

lemma scale_nonneg:
  assumes "0 \<le> n" "0 \<le> c"
  shows "0 \<le> scale n c"
proof -
  have "0 \<le> float_of_int n" using assms by (simp add: float_of_int_def b64_nonneg)
  then have "0 \<le> float_mul (float_of_int n) c"
    using assms by (simp add: float_mul_def b64_nonneg)
  then show ?thesis by (simp add: scale_def py_int_def)
qed

lemma scale_upper:
  assumes "0 \<le> n" "0 \<le> c"
  shows "of_int (scale n c) \<le> of_int n * c * ((1 + unit_roundoff) * (1 + unit_roundoff))"
proof -
  define N where "N = float_of_int n"
  have u: "0 \<le> 1 + unit_roundoff" by (simp add: unit_roundoff_def)
  have N0: "0 \<le> N" using assms by (simp add: N_def float_of_int_def b64_nonneg)
  have N1: "N \<le> of_int n * (1 + unit_roundoff)"
    unfolding N_def float_of_int_def using assms by (intro b64_upper) simp
  have p0: "0 \<le> N * c" using N0 assms by simp
  have "of_int (scale n c) \<le> float_mul N c"
    using p0 by (simp add: scale_def py_int_def N_def float_mul_def b64_nonneg)
  also have "\<dots> \<le> N * c * (1 + unit_roundoff)"
    unfolding float_mul_def by (rule b64_upper [OF p0])
  also have "\<dots> \<le> (of_int n * (1 + unit_roundoff)) * c * (1 + unit_roundoff)"
    using N1 assms u by (intro mult_right_mono) simp_all
  finally show ?thesis by (simp add: algebra_simps)
qed

lemma scale_pair_le:
  assumes n: "0 \<le> n" and c: "0 \<le> c1" "0 \<le> c2"
    and s: "(c1 + c2) * ((1 + unit_roundoff) * (1 + unit_roundoff)) \<le> 1"
  shows "scale n c1 + scale n c2 \<le> n"
proof -
  have "(of_int (scale n c1 + scale n c2) :: rat) \<le>
      of_int n * c1 * ((1 + unit_roundoff) * (1 + unit_roundoff)) +
      of_int n * c2 * ((1 + unit_roundoff) * (1 + unit_roundoff))"
    using scale_upper [OF n c(1)] scale_upper [OF n c(2)] by simp
  also have "\<dots> = of_int n * ((c1 + c2) * ((1 + unit_roundoff) * (1 + unit_roundoff)))"
    by (simp add: algebra_simps)
  also have "\<dots> \<le> of_int n * 1"
    using s n by (intro mult_left_mono) simp_all
  finally have "(of_int (scale n c1 + scale n c2) :: rat) \<le> of_int n" by simp
  then show ?thesis by (simp only: of_int_le_iff)
qed

lemma scale_double_le:
  assumes "0 \<le> n" and "0 \<le> c"
    and "(c + c) * ((1 + unit_roundoff) * (1 + unit_roundoff)) \<le> 1"
  shows "2 * scale n c \<le> n"
  using scale_pair_le [OF assms(1) assms(2) assms(2) assms(3)] by simp

lemma mock_fractions_nonneg:
  "0 \<le> lit 1 10" "0 \<le> lit 8 10" "0 \<le> lit 7 10" "0 \<le> lit 5 100" "0 \<le> lit 67 1000"
  "0 \<le> lit 2 10" "0 \<le> lit 15 100" "0 \<le> lit 6 10" "0 \<le> lit 3 10" "0 \<le> lit 4 10"
  by (simp_all add: lit_def b64_nonneg zero_le_Fract_iff)

lemma mock_fractions_fit:
  "(lit 1 10 + lit 8 10) * ((1 + unit_roundoff) * (1 + unit_roundoff)) \<le> 1"
  "(lit 1 10 + lit 7 10) * ((1 + unit_roundoff) * (1 + unit_roundoff)) \<le> 1"
  "(lit 5 100 + lit 5 100) * ((1 + unit_roundoff) * (1 + unit_roundoff)) \<le> 1"
  "(lit 1 10 + lit 67 1000) * ((1 + unit_roundoff) * (1 + unit_roundoff)) \<le> 1"
  "(lit 2 10 + lit 6 10) * ((1 + unit_roundoff) * (1 + unit_roundoff)) \<le> 1"
  "(lit 15 100 + lit 5 100) * ((1 + unit_roundoff) * (1 + unit_roundoff)) \<le> 1"
  "(lit 2 10 + lit 3 10) * ((1 + unit_roundoff) * (1 + unit_roundoff)) \<le> 1"
  "(lit 2 10 + lit 4 10) * ((1 + unit_roundoff) * (1 + unit_roundoff)) \<le> 1"
  "(lit 2 10 + lit 5 100) * ((1 + unit_roundoff) * (1 + unit_roundoff)) \<le> 1"
  by code_simp+

lemma icon_fits: "0 \<le> n \<Longrightarrow> 2 * scale n (lit 5 100) \<le> n"
  by (rule scale_double_le [OF _ mock_fractions_nonneg(4) mock_fractions_fit(3)])

text \<open>
  Whatever the size of the canvas, every box of the mock objects and of the mock OCR
  regions lies on it: the rounding of the products never pushes a box over the right or
  the lower edge.
\<close>

lemma mock_boxes_inside_canvas:
  assumes "0 \<le> ii_width (id_image_info details)" and "0 \<le> ii_height (id_image_info details)"
  shows "list_all (inside_canvas (ii_width (id_image_info details)) (ii_height (id_image_info details)))
           (map obj_bbox (ar_objects (generate_mock_analysis_results image_path details)) @
            map reg_bbox (ocr_regions (ar_ocr (generate_mock_analysis_results image_path details))))"
  using assms
  by (simp add: generate_mock_analysis_results_def inside_canvas_def Let_def
      scale_nonneg mock_fractions_nonneg scale_pair_le icon_fits mock_fractions_fit)

text \<open>
  On a side of up to \<open>2 ^ 32\<close> pixels, the float product with a fraction of at most three
  decimals, cut to a whole number, is the exact fraction cut to a whole number, or one
  below it: the two roundings move the product by less than a thousandth.
\<close>

lemma scale_is_fraction:
  assumes n: "0 \<le> n" "n \<le> 2 ^ 32" and p: "0 \<le> p" "p \<le> q" and q: "0 < q" "q \<le> 1000"
  shows "(n * p) div q - 1 \<le> scale n (lit p q) \<and> scale n (lit p q) \<le> (n * p) div q"
proof -
  define u where "u = unit_roundoff"
  define f :: rat where "f = of_int p / of_int q"
  define c where "c = b64 f"
  define t :: rat where "t = of_int n * f"
  define x :: rat where "x = of_int n * c"
  define v where "v = b64 x"
  define m where "m = (n * p) div q"
  define r where "r = (n * p) mod q"
  have u0: "0 \<le> u" and u1: "u \<le> 1" by (simp_all add: u_def unit_roundoff_def)
  have f0: "0 \<le> f" and f1: "f \<le> 1" using p q by (simp_all add: f_def)
  have t0: "0 \<le> t" using n f0 by (simp add: t_def)
  have "t \<le> of_int n * 1" unfolding t_def using n f1 by (intro mult_left_mono) simp_all
  moreover have "(of_int n :: rat) \<le> of_int (2 ^ 32)" using n by (simp only: of_int_le_iff)
  ultimately have t32: "t \<le> 2 ^ 32" by simp
  have c0: "0 \<le> c" unfolding c_def using f0 by (rule b64_nonneg)
  have x0: "0 \<le> x" using n c0 by (simp add: x_def)
  have v0: "0 \<le> v" unfolding v_def using x0 by (rule b64_nonneg)
  have "\<bar>n\<bar> < 2 ^ 53" using n by simp
  then have N: "float_of_int n = of_int n" by (simp add: float_of_int_def b64_of_int)
  have sc: "scale n (lit p q) = \<lfloor>v\<rfloor>"
    using v0 by (simp add: scale_def float_mul_def N py_int_def v_def x_def c_def lit_def f_def
        Fract_of_int_quotient)
  \<comment> \<open>the two roundings\<close>
  have "\<bar>c - f\<bar> \<le> \<bar>f\<bar> * u" unfolding c_def u_def by (rule b64_error_u)
  then have ce: "\<bar>c - f\<bar> \<le> f * u" using f0 by simp
  have "x - t = of_int n * (c - f)" by (simp add: x_def t_def algebra_simps)
  then have "\<bar>x - t\<bar> = of_int n * \<bar>c - f\<bar>" using n by (simp add: abs_mult)
  also have "\<dots> \<le> of_int n * (f * u)" using ce n by (intro mult_left_mono) simp_all
  finally have xe: "\<bar>x - t\<bar> \<le> t * u" by (simp add: t_def mult.assoc)
  have "x \<le> t + \<bar>x - t\<bar>" by simp
  then have xt: "x \<le> t + t * u" using xe by simp
  have "\<bar>v - x\<bar> \<le> \<bar>x\<bar> * u" unfolding v_def u_def by (rule b64_error_u)
  then have "\<bar>v - x\<bar> \<le> x * u" using x0 by simp
  also have "\<dots> \<le> (t + t * u) * u" using xt u0 by (intro mult_right_mono)
  finally have ve: "\<bar>v - x\<bar> \<le> (t + t * u) * u" .
  have "t * u * u \<le> t * u * 1" using t0 u0 u1 by (intro mult_left_mono) simp_all
  then have tuu: "t * u * u \<le> t * u" by simp
  have "\<bar>v - t\<bar> \<le> \<bar>v - x\<bar> + \<bar>x - t\<bar>" by simp
  also have "\<dots> \<le> (t + t * u) * u + t * u" using ve xe by simp
  also have "\<dots> = 2 * (t * u) + t * u * u" by (simp add: algebra_simps)
  also have "\<dots> \<le> 3 * (t * u)" using tuu by simp
  finally have e3: "\<bar>v - t\<bar> \<le> 3 * (t * u)" .
  have "t * u \<le> 2 ^ 32 * u" using t32 u0 by (intro mult_right_mono)
  then have "3 * (t * u) \<le> 3 * (2 ^ 32 * u)" by simp
  also have "\<dots> < 1 / 1000" by (simp add: u_def unit_roundoff_def)
  also have "(1 / 1000 :: rat) \<le> 1 / of_int q"
    using q by (simp add: field_simps)
  finally have small: "3 * (t * u) < 1 / of_int q" .
  have d: "\<bar>v - t\<bar> < 1 / of_int q" using e3 small by simp
  \<comment> \<open>the exact fraction between two whole numbers\<close>
  have np: "n * p = m * q + r" by (simp add: m_def r_def)
  have r: "0 \<le> r" "r \<le> q - 1" using q by (simp_all add: r_def)
  have "t = of_int (n * p) / of_int q" by (simp add: t_def f_def)
  also have "\<dots> = of_int m + of_int r / of_int q"
    using q by (simp add: np field_simps)
  finally have tm: "t = of_int m + of_int r / of_int q" .
  have rq0: "0 \<le> (of_int r :: rat) / of_int q" using r q by simp
  have "(of_int r :: rat) \<le> of_int (q - 1)" using r by (simp only: of_int_le_iff)
  then have "(of_int r :: rat) / of_int q \<le> of_int (q - 1) / of_int q"
    using q by (intro divide_right_mono) simp_all
  also have "\<dots> = 1 - 1 / of_int q" using q by (simp add: field_simps)
  finally have rq1: "(of_int r :: rat) / of_int q \<le> 1 - 1 / of_int q" .
  have "v < t + 1 / of_int q" using d by (simp add: abs_less_iff)
  then have "v < of_int m + 1" using tm rq1 by simp
  then have "v < of_int (m + 1)" by simp
  then have up: "\<lfloor>v\<rfloor> < m + 1" by (simp only: floor_less_iff)
  have q1: "1 / (of_int q :: rat) \<le> 1" using q by simp
  have "t - 1 / of_int q < v" using d by (simp add: abs_less_iff)
  then have "of_int m - 1 < v" using tm rq0 q1 by simp
  then have "of_int (m - 1) \<le> v" by simp
  then have lo: "m - 1 \<le> \<lfloor>v\<rfloor>" by (simp only: le_floor_iff)
  show ?thesis using up lo by (simp add: sc m_def)
qed

lemma scale_near_fraction:
  assumes "0 \<le> n" "n \<le> 2 ^ 32" and "0 \<le> p" "p \<le> q" and "0 < q" "q \<le> 1000"
  shows "near_fraction n (p, q) (scale n (lit p q))"
  using scale_is_fraction [OF assms] by (simp add: near_fraction_def)

section \<open>The mock provider\<close>

text \<open>
  C2. For every width and height the mock provider returns three objects, labelled
  window, icon and text in this order, and an OCR block that is marked detected, carries
  the two placeholder texts joined by a dash, and has two regions with these two texts.
  On a canvas of up to \<open>2 ^ 32\<close> pixels a side the boxes are fixed fractions of it, each
  cut to whole pixels: the window starts at a tenth of the width and of the height and
  spans eight tenths of the width and seven tenths of the height; the icon starts at a
  twentieth of the width and a tenth of the height and spans a twentieth of the width
  and 67 thousandths of the height; the text is a strip that starts at two tenths of the
  width and 15 hundredths of the height and spans six tenths of the width and a
  twentieth of the height; the two regions lie in and below that strip. Every box lies
  on the canvas.
\<close>

theorem mock_three_objects_two_regions:
  "(let r = generate_mock_analysis_results image_path details;
        w = ii_width (id_image_info details);
        h = ii_height (id_image_info details)
    in length (ar_objects r) = 3 \<and>
       map obj_label (ar_objects r) = [''window'', ''icon'', ''text''] \<and>
       ocr_detected (ar_ocr r) \<and>
       ocr_text (ar_ocr r) = mock_region_text_1 @ '' - '' @ mock_region_text_2 \<and>
       length (ocr_regions (ar_ocr r)) = 2 \<and>
       map reg_text (ocr_regions (ar_ocr r)) = [mock_region_text_1, mock_region_text_2] \<and>
       (0 \<le> w \<and> w \<le> 2 ^ 32 \<and> 0 \<le> h \<and> h \<le> 2 ^ 32 \<longrightarrow>
          list_all2 (box_at w h)
            [((1, 10), (1, 10), (8, 10), (7, 10)),
             ((5, 100), (1, 10), (5, 100), (67, 1000)),
             ((2, 10), (15, 100), (6, 10), (5, 100))]
            (map obj_bbox (ar_objects r)) \<and>
          list_all2 (box_at w h)
            [((2, 10), (15, 100), (3, 10), (5, 100)),
             ((2, 10), (2, 10), (4, 10), (5, 100))]
            (map reg_bbox (ocr_regions (ar_ocr r))) \<and>
          list_all (inside_canvas w h)
            (map obj_bbox (ar_objects r) @ map reg_bbox (ocr_regions (ar_ocr r)))))"
proof -
  have texts: "mock_ocr_text = mock_region_text_1 @ '' - '' @ mock_region_text_2"
    by (simp add: mock_ocr_text_def mock_region_text_1_def mock_region_text_2_def)
  have inside: "0 \<le> ii_width (id_image_info details) \<Longrightarrow> 0 \<le> ii_height (id_image_info details) \<Longrightarrow>
      list_all (inside_canvas (ii_width (id_image_info details)) (ii_height (id_image_info details)))
        (map obj_bbox (ar_objects (generate_mock_analysis_results image_path details)) @
         map reg_bbox (ocr_regions (ar_ocr (generate_mock_analysis_results image_path details))))"
    by (rule mock_boxes_inside_canvas)
  have parts: "let r = generate_mock_analysis_results image_path details;
        w = ii_width (id_image_info details);
        h = ii_height (id_image_info details)
    in length (ar_objects r) = 3 \<and>
       map obj_label (ar_objects r) = [''window'', ''icon'', ''text''] \<and>
       ocr_detected (ar_ocr r) \<and>
       ocr_text (ar_ocr r) = mock_region_text_1 @ '' - '' @ mock_region_text_2 \<and>
       length (ocr_regions (ar_ocr r)) = 2 \<and>
       map reg_text (ocr_regions (ar_ocr r)) = [mock_region_text_1, mock_region_text_2] \<and>
       (0 \<le> w \<and> w \<le> 2 ^ 32 \<and> 0 \<le> h \<and> h \<le> 2 ^ 32 \<longrightarrow>
          list_all2 (box_at w h)
            [((1, 10), (1, 10), (8, 10), (7, 10)),
             ((5, 100), (1, 10), (5, 100), (67, 1000)),
             ((2, 10), (15, 100), (6, 10), (5, 100))]
            (map obj_bbox (ar_objects r)) \<and>
          list_all2 (box_at w h)
            [((2, 10), (15, 100), (3, 10), (5, 100)),
             ((2, 10), (2, 10), (4, 10), (5, 100))]
            (map reg_bbox (ocr_regions (ar_ocr r))))"
    by (simp add: generate_mock_analysis_results_def Let_def texts box_at_def
        scale_near_fraction)
  show ?thesis
    using parts inside by (simp add: Let_def)
qed

lemma scale_640:
  "scale 640 (lit 1 10) = 64" "scale 640 (lit 8 10) = 512" "scale 640 (lit 5 100) = 32"
  "scale 640 (lit 2 10) = 128" "scale 640 (lit 6 10) = 384" "scale 640 (lit 3 10) = 192"
  "scale 640 (lit 4 10) = 256"
  by code_simp+

lemma scale_480:
  "scale 480 (lit 1 10) = 48" "scale 480 (lit 7 10) = 336" "scale 480 (lit 67 1000) = 32"
  "scale 480 (lit 15 100) = 72" "scale 480 (lit 5 100) = 24" "scale 480 (lit 2 10) = 96"
  by code_simp+

lemma white_png_dimensions:
  "ii_width (id_image_info white_png) = 640" "ii_height (id_image_info white_png) = 480"
  by (simp_all add: white_png_def make_image_info_def Let_def)

lemma grey_jpeg_dimensions:
  "ii_width (id_image_info grey_jpeg) = 640" "ii_height (id_image_info grey_jpeg) = 480"
  by (simp_all add: grey_jpeg_def make_image_info_def Let_def)

text \<open>
  On the white 640 by 480 image the window is 512 by 336 at (64, 48), the icon is 32 by
  32 at (32, 48) and the text strip is 384 by 24 at (128, 72).
\<close>

lemma mock_boxes_640_480:
  "map obj_bbox (ar_objects (generate_mock_analysis_results ''test_screenshot.png'' white_png)) =
     [\<lparr> bb_x = 64, bb_y = 48, bb_width = 512, bb_height = 336 \<rparr>,
      \<lparr> bb_x = 32, bb_y = 48, bb_width = 32, bb_height = 32 \<rparr>,
      \<lparr> bb_x = 128, bb_y = 72, bb_width = 384, bb_height = 24 \<rparr>]"
  by (simp add: generate_mock_analysis_results_def Let_def white_png_dimensions
      scale_640 scale_480)

theorem mock_three_objects_two_regions_witness:
  "ii_width (id_image_info white_png) = 640 \<and> ii_height (id_image_info white_png) = 480 \<and>
   list_all2 (box_at 640 480)
     [((1, 10), (1, 10), (8, 10), (7, 10)),
      ((5, 100), (1, 10), (5, 100), (67, 1000)),
      ((2, 10), (15, 100), (6, 10), (5, 100))]
     (map obj_bbox (ar_objects (generate_mock_analysis_results ''test_screenshot.png'' white_png))) \<and>
   map obj_bbox (ar_objects (generate_mock_analysis_results ''test_screenshot.png'' white_png)) =
     [\<lparr> bb_x = 64, bb_y = 48, bb_width = 512, bb_height = 336 \<rparr>,
      \<lparr> bb_x = 32, bb_y = 48, bb_width = 32, bb_height = 32 \<rparr>,
      \<lparr> bb_x = 128, bb_y = 72, bb_width = 384, bb_height = 24 \<rparr>] \<and>
   list_all (inside_canvas 640 480)
     (map obj_bbox (ar_objects (generate_mock_analysis_results ''test_screenshot.png'' white_png)) @
      map reg_bbox (ocr_regions (ar_ocr
        (generate_mock_analysis_results ''test_screenshot.png'' white_png))))"
  using mock_three_objects_two_regions [of "''test_screenshot.png''" white_png]
    mock_boxes_640_480
  by (simp add: Let_def white_png_dimensions)

text \<open>
  The products are floats: seven tenths of 90 is the float just below 63, and the box is
  62 pixels high.
\<close>

lemma scale_rounds_like_the_float: "scale 90 (lit 7 10) = 62"
  by code_simp

text \<open>
  C9. The mock provider is a function of the width and the height alone: two calls whose
  image details agree on both return the same results, whatever the paths and the rest
  of the details.
\<close>

theorem mock_depends_on_dimensions_only:
  assumes "ii_width (id_image_info d1) = ii_width (id_image_info d2)"
    and "ii_height (id_image_info d1) = ii_height (id_image_info d2)"
  shows "generate_mock_analysis_results p1 d1 = generate_mock_analysis_results p2 d2"
  using assms by (simp add: generate_mock_analysis_results_def)

theorem mock_depends_on_dimensions_only_witness:
  "white_png \<noteq> grey_jpeg \<and>
   ii_width (id_image_info white_png) = ii_width (id_image_info grey_jpeg) \<and>
   ii_height (id_image_info white_png) = ii_height (id_image_info grey_jpeg) \<and>
   generate_mock_analysis_results ''test_screenshot.png'' white_png =
   generate_mock_analysis_results ''photo.jpg'' grey_jpeg"
proof -
  have w: "ii_width (id_image_info white_png) = ii_width (id_image_info grey_jpeg)"
    by (simp add: white_png_dimensions grey_jpeg_dimensions)
  have h: "ii_height (id_image_info white_png) = ii_height (id_image_info grey_jpeg)"
    by (simp add: white_png_dimensions grey_jpeg_dimensions)
  have "fi_extension (id_file_info white_png) \<noteq> fi_extension (id_file_info grey_jpeg)"
    by (simp add: white_png_def grey_jpeg_def)
  then have "white_png \<noteq> grey_jpeg"
    by auto
  with w h mock_depends_on_dimensions_only [OF w h] show ?thesis
    by simp
qed

text \<open>
  C3, as amended. In mock mode the tags of the report are a fixed list of four words
  (screenshot, desktop, window, UI), whatever the detected objects are. The tags are the
  distinct labels of the detected objects in a report built from a detection result.
\<close>

theorem tags_fixed_in_mock_distinct_labels_from_detection:
  "select_analysis env True model_path image_path details =
     Returns (generate_mock_analysis_results image_path details, ''mock'') \<and>
   ar_tags (generate_mock_analysis_results image_path details) =
     [mock_tag_screenshot, mock_tag_desktop, mock_tag_window, ''UI''] \<and>
   set (ar_tags (build_analysis_results image_path details detection)) =
     obj_label ` set (ar_objects (build_analysis_results image_path details detection)) \<and>
   distinct (ar_tags (build_analysis_results image_path details detection))"
  by (simp add: select_analysis_def generate_mock_analysis_results_def
      build_analysis_results_def Let_def)

text \<open>
  The claim as it is written makes the tags of a mock report the labels window, icon and
  text. On the 640 by 480 image the labels are these three and the tags are not.
\<close>

theorem mock_tags_are_not_the_labels_counterexample:
  "set (map obj_label (ar_objects (generate_mock_analysis_results ''test_screenshot.png'' white_png)))
     = {''window'', ''icon'', ''text''} \<and>
   set (ar_tags (generate_mock_analysis_results ''test_screenshot.png'' white_png))
     \<noteq> {''window'', ''icon'', ''text''}"
proof -
  have "''UI'' \<in> set (ar_tags (generate_mock_analysis_results ''test_screenshot.png'' white_png))"
    by (simp add: generate_mock_analysis_results_def Let_def)
  moreover have "''UI'' \<notin> {''window'', ''icon'', ''text''}"
    by simp
  ultimately have "set (ar_tags (generate_mock_analysis_results ''test_screenshot.png'' white_png))
     \<noteq> {''window'', ''icon'', ''text''}"
    by metis
  then show ?thesis
    by (simp add: generate_mock_analysis_results_def Let_def)
qed

section \<open>The OCR block of a real analysis\<close>

lemma detect_returns: "\<exists>r. fst (detect env m image_path) = Returns r"
  by (simp add: detect_def Let_def split: prod.splits outcome.splits)

lemma build_analysis_results_ocr:
  "ar_ocr (build_analysis_results image_path details detection) =
     \<lparr> ocr_detected = False, ocr_confidence = None, ocr_text = [], ocr_regions = [] \<rparr>"
  by (simp add: build_analysis_results_def real_ocr_results_def Let_def)

lemma no_overlay_without_ocr:
  "\<not> ocr_detected (ar_ocr (fr_analysis results)) \<Longrightarrow> ocr_overlays results = []"
  by (simp add: ocr_overlays_def)

lemma select_analysis_with_detector:
  assumes "ye_available (ae_yolo env)"
  shows "\<exists>detection. select_analysis env False model_path image_path details =
           Returns (build_analysis_results image_path details detection, ''yolov8'')"
proof -
  obtain r where "fst (detect (ae_yolo env) (new_yolo_model model_path (lit 25 100)) image_path)
      = Returns r"
    using detect_returns by blast
  then show ?thesis
    using assms by (auto simp: select_analysis_def)
qed

lemma select_analysis_without_detector:
  assumes "\<not> ye_available (ae_yolo env)"
  shows "select_analysis env False model_path image_path details =
           Returns (generate_mock_analysis_results image_path details, ''mock (YOLO unavailable)'')"
  using assms by (simp add: select_analysis_def)

text \<open>
  C10, as amended. For every detection result, the analysis built from it carries the
  OCR block with detected false, an empty text and no regions, and the renderer draws no
  OCR overlay for a report with that analysis. A run that is not a mock run builds its
  report from a detection result when the detector library is available, so its report,
  of mode \<open>yolo_analysis\<close>, has that block and no OCR overlay. When the detector library
  is not available such a run builds no detection result: its report, still of mode
  \<open>yolo_analysis\<close>, carries the mock analysis, whose OCR block is marked detected and has
  two regions.
\<close>

theorem report_from_detection_has_no_ocr:
  "ar_ocr (build_analysis_results image_path details detection) =
     \<lparr> ocr_detected = False, ocr_confidence = None, ocr_text = [], ocr_regions = [] \<rparr> \<and>
   ocr_overlays (report\<lparr>fr_analysis := build_analysis_results image_path details detection\<rparr>)
     = [] \<and>
   (ye_available (ae_yolo env) \<longrightarrow>
      (\<exists>full. make_full_results env False model_path image_path details = Returns full \<and>
         md_mode (fr_metadata full) = ''yolo_analysis'' \<and>
         ar_ocr (fr_analysis full) =
           \<lparr> ocr_detected = False, ocr_confidence = None, ocr_text = [], ocr_regions = [] \<rparr> \<and>
         ocr_overlays full = [])) \<and>
   (\<not> ye_available (ae_yolo env) \<longrightarrow>
      (\<exists>full. make_full_results env False model_path image_path details = Returns full \<and>
         md_mode (fr_metadata full) = ''yolo_analysis'' \<and>
         fr_analysis full = generate_mock_analysis_results image_path details \<and>
         ocr_detected (ar_ocr (fr_analysis full)) \<and>
         length (ocr_regions (ar_ocr (fr_analysis full))) = 2))"
proof (intro conjI impI)
  show "ar_ocr (build_analysis_results image_path details detection) =
     \<lparr> ocr_detected = False, ocr_confidence = None, ocr_text = [], ocr_regions = [] \<rparr>"
    by (rule build_analysis_results_ocr)
  show "ocr_overlays (report\<lparr>fr_analysis := build_analysis_results image_path details detection\<rparr>)
     = []"
    by (simp add: no_overlay_without_ocr build_analysis_results_ocr)
next
  assume "ye_available (ae_yolo env)"
  then obtain d where "select_analysis env False model_path image_path details =
      Returns (build_analysis_results image_path details d, ''yolov8'')"
    using select_analysis_with_detector by blast
  then show "\<exists>full. make_full_results env False model_path image_path details = Returns full \<and>
      md_mode (fr_metadata full) = ''yolo_analysis'' \<and>
      ar_ocr (fr_analysis full) =
        \<lparr> ocr_detected = False, ocr_confidence = None, ocr_text = [], ocr_regions = [] \<rparr> \<and>
      ocr_overlays full = []"
    by (simp add: make_full_results_def no_overlay_without_ocr build_analysis_results_ocr)
next
  assume "\<not> ye_available (ae_yolo env)"
  then have "select_analysis env False model_path image_path details =
      Returns (generate_mock_analysis_results image_path details, ''mock (YOLO unavailable)'')"
    by (rule select_analysis_without_detector)
  then show "\<exists>full. make_full_results env False model_path image_path details = Returns full \<and>
      md_mode (fr_metadata full) = ''yolo_analysis'' \<and>
      fr_analysis full = generate_mock_analysis_results image_path details \<and>
      ocr_detected (ar_ocr (fr_analysis full)) \<and>
      length (ocr_regions (ar_ocr (fr_analysis full))) = 2"
    by (simp add: make_full_results_def generate_mock_analysis_results_def Let_def)
qed

theorem report_from_detection_has_no_ocr_witness:
  "ye_available (ae_yolo (sample_analysis_env working_yolo_env)) \<and>
   (case make_full_results (sample_analysis_env working_yolo_env) False None
           ''test_screenshot.png'' white_png of
      Returns full \<Rightarrow>
        md_mode (fr_metadata full) = ''yolo_analysis'' \<and>
        \<not> ocr_detected (ar_ocr (fr_analysis full)) \<and>
        ocr_regions (ar_ocr (fr_analysis full)) = [] \<and>
        ocr_overlays full = []
    | Raises e \<Rightarrow> False)"
proof -
  have a: "ye_available (ae_yolo (sample_analysis_env working_yolo_env))"
    by (simp add: sample_analysis_env_def working_yolo_env_def)
  obtain full where
    "make_full_results (sample_analysis_env working_yolo_env) False None
       ''test_screenshot.png'' white_png = Returns full"
    "md_mode (fr_metadata full) = ''yolo_analysis''"
    "ar_ocr (fr_analysis full) =
       \<lparr> ocr_detected = False, ocr_confidence = None, ocr_text = [], ocr_regions = [] \<rparr>"
    "ocr_overlays full = []"
    using report_from_detection_has_no_ocr
      [where env = "sample_analysis_env working_yolo_env" and model_path = None
         and image_path = "''test_screenshot.png''" and details = white_png]
      a
    by blast
  then show ?thesis
    using a by simp
qed

text \<open>
  The claim as it is written says that no report of real mode marks OCR as detected. On
  a machine without the detector library a run with \<open>mock\<close> false gives a report of mode
  \<open>yolo_analysis\<close>, not flagged as mock data, whose OCR block is marked detected, and the
  renderer draws six OCR overlay calls for its two regions.
\<close>

theorem real_mode_without_detector_has_ocr_counterexample:
  "(case make_full_results (sample_analysis_env missing_yolo_env) False None
           ''test_screenshot.png'' white_png of
      Returns full \<Rightarrow>
        md_mode (fr_metadata full) = ''yolo_analysis'' \<and>
        \<not> dbg_mock_data (fr_debug_info full) \<and>
        dbg_model_used (fr_debug_info full) = Some ''mock (YOLO unavailable)'' \<and>
        ocr_detected (ar_ocr (fr_analysis full)) \<and>
        length (ocr_regions (ar_ocr (fr_analysis full))) = 2 \<and>
        length (ocr_overlays full) = 6
    | Raises e \<Rightarrow> False)"
  by (simp add: make_full_results_def select_analysis_def sample_analysis_env_def
      missing_yolo_env_def generate_mock_analysis_results_def make_debug_info_def
      ocr_overlays_def draw_region_def Let_def)

section \<open>The aggregate confidence\<close>

lemma build_analysis_results_confidence:
  "ar_confidence (build_analysis_results image_path details detection) =
     avg_confidence (ar_objects (build_analysis_results image_path details detection))"
  by (simp add: build_analysis_results_def Let_def)

text \<open>
  C1. The aggregate confidence of a report built from a detection result is exactly 0
  when there is no object. Otherwise it is the arithmetic mean of the confidences of the
  objects, computed in binary64: for confidences between 0 and 1 it differs from the
  exact mean by at most \<open>(n + 2) / 2 ^ 53\<close> for \<open>n\<close> objects, which is below \<open>1e-6\<close> (the
  bound on the number of objects only keeps the count itself exact as a float).
\<close>

theorem aggregate_confidence_is_the_mean:
  assumes "\<forall>obj \<in> set (ar_objects (build_analysis_results image_path details detection)).
             0 \<le> obj_confidence obj \<and> obj_confidence obj \<le> 1"
    and "length (ar_objects (build_analysis_results image_path details detection)) \<le> 2 ^ 32"
  shows
    "(let r = build_analysis_results image_path details detection;
          confidences = map obj_confidence (ar_objects r);
          mean = sum_list confidences / of_nat (length confidences)
      in if ar_objects r = [] then ar_confidence r = 0
         else \<bar>ar_confidence r - mean\<bar> \<le> (of_nat (length confidences) + 2) / 2 ^ 53 \<and>
              \<bar>ar_confidence r - mean\<bar> \<le> 1 / 10 ^ 6)"
proof -
  define r where "r = build_analysis_results image_path details detection"
  define cs where "cs = map obj_confidence (ar_objects r)"
  have c: "ar_confidence r = avg_confidence (ar_objects r)"
    unfolding r_def by (rule build_analysis_results_confidence)
  show ?thesis
  proof (cases "ar_objects r = []")
    case True
    then show ?thesis
      using c by (simp add: r_def [symmetric] avg_confidence_def Let_def)
  next
    case False
    then have ne: "cs \<noteq> []" by (simp add: cs_def)
    have conf: "\<forall>x\<in>set cs. 0 \<le> x \<and> x \<le> 1"
      using assms(1) by (auto simp: cs_def r_def)
    have len: "length cs \<le> 2 ^ 32"
      using assms(2) by (simp add: cs_def r_def)
    have a: "ar_confidence r = float_div (float_sum cs) (float_of_int (int (length cs)))"
      using False c by (simp add: avg_confidence_def cs_def)
    have "\<bar>ar_confidence r - sum_list cs / of_nat (length cs)\<bar>
            \<le> (of_nat (length cs) + 2) * unit_roundoff"
      unfolding a by (rule float_mean_error [OF ne conf len])
    moreover have "\<bar>ar_confidence r - sum_list cs / of_nat (length cs)\<bar> \<le> 1 / 10 ^ 6"
      unfolding a by (rule float_mean_within_1e6 [OF ne conf len])
    ultimately show ?thesis
      using False by (simp add: r_def [symmetric] cs_def [symmetric] Let_def unit_roundoff_def)
  qed
qed

lemma three_detections_objects:
  "map obj_confidence (ar_objects (build_analysis_results ''test_screenshot.png'' white_png
     three_detections)) = [lit 9 10, lit 8 10, lit 7 10]"
  by (simp add: build_analysis_results_def three_detections_def Let_def)

lemma three_confidences_in_range:
  "0 \<le> lit 9 10 \<and> lit 9 10 \<le> 1" "0 \<le> lit 8 10 \<and> lit 8 10 \<le> 1"
  "0 \<le> lit 7 10 \<and> lit 7 10 \<le> 1"
  by code_simp+

lemma three_confidences_mean: "\<bar>(lit 9 10 + lit 8 10 + lit 7 10) / 3 - 8 / 10\<bar> \<le> 1 / 10 ^ 9"
  by code_simp

text \<open>
  The example of the specification: the confidences 0.9, 0.8 and 0.7 give 0.8 within
  \<open>1e-6\<close>. The float computed is 0.8000000000000002.
\<close>

lemma three_detections_confidence:
  "ar_confidence (build_analysis_results ''test_screenshot.png'' white_png three_detections)
     = Fract 7205759403792795 9007199254740992"
  unfolding build_analysis_results_confidence
  apply (simp add: build_analysis_results_def three_detections_def Let_def avg_confidence_def)
  apply code_simp
  done

theorem aggregate_confidence_is_the_mean_witness:
  "length (ar_objects (build_analysis_results ''test_screenshot.png'' white_png three_detections))
     = 3 \<and>
   \<bar>ar_confidence (build_analysis_results ''test_screenshot.png'' white_png three_detections)
      - (lit 9 10 + lit 8 10 + lit 7 10) / 3\<bar> \<le> 1 / 10 ^ 6 \<and>
   \<bar>ar_confidence (build_analysis_results ''test_screenshot.png'' white_png three_detections)
      - 8 / 10\<bar> \<le> 1 / 10 ^ 6"
proof -
  let ?r = "build_analysis_results ''test_screenshot.png'' white_png three_detections"
  have objs: "ar_objects ?r = the (dr_objects three_detections)"
    by (simp add: build_analysis_results_def three_detections_def Let_def)
  have h1: "\<forall>obj \<in> set (ar_objects ?r). 0 \<le> obj_confidence obj \<and> obj_confidence obj \<le> 1"
    unfolding objs using three_confidences_in_range by (simp add: three_detections_def)
  have h2: "length (ar_objects ?r) \<le> 2 ^ 32"
    unfolding objs by (simp add: three_detections_def)
  have n: "length (ar_objects ?r) = 3"
    unfolding objs by (simp add: three_detections_def)
  have ne: "ar_objects ?r \<noteq> []"
    using n by auto
  have "\<bar>ar_confidence ?r - sum_list (map obj_confidence (ar_objects ?r))
          / of_nat (length (map obj_confidence (ar_objects ?r)))\<bar> \<le> 1 / 10 ^ 6"
    using aggregate_confidence_is_the_mean [OF h1 h2] ne by (simp add: Let_def)
  then have m: "\<bar>ar_confidence ?r - (lit 9 10 + lit 8 10 + lit 7 10) / 3\<bar> \<le> 1 / 10 ^ 6"
    by (simp add: three_detections_objects add.assoc)
  have "\<bar>ar_confidence ?r - 8 / 10\<bar> \<le> 1 / 10 ^ 6"
    unfolding three_detections_confidence by code_simp
  with n m show ?thesis by simp
qed

section \<open>Failures of the detector\<close>

lemma build_on_no_objects:
  assumes "dr_objects r = Some []"
  shows "build_analysis_results image_path details r =
           \<lparr> ar_objects = [], ar_ocr = real_ocr_results,
             ar_description = txt_nothing_detected, ar_tags = [], ar_confidence = 0 \<rparr>"
  using assms
  by (simp add: build_analysis_results_def object_counts_def avg_confidence_def Let_def)

lemma detect_body_no_error:
  "detect_body env m image_path = Returns r \<Longrightarrow> dr_error r = None"
  by (auto simp: detect_body_def split: outcome.splits list.splits)

text \<open>
  C6, as amended. \<open>detect\<close> always returns a result: no exception leaves it. The result
  carries an error exactly when the model could not be loaded or the detection raised.
  Then its object list is empty, and the error is the fixed text "the model is not
  loaded", which is not empty, when the model could not be loaded, and the text of the
  exception, whatever it is, when the detection raised. The report builder makes of such
  a result the analysis with no object, no tag, the description "no object detected" and
  the confidence 0.
\<close>

theorem detect_failure_gives_no_objects_and_the_error_text:
  "\<exists>r m'. detect env m image_path = (Returns r, m') \<and>
     (case dr_error r of
        None \<Rightarrow>
          (ym_is_loaded m \<or> fst (load env m)) \<and> detect_body env m' image_path = Returns r
      | Some e \<Rightarrow>
          dr_objects r = Some [] \<and>
          (if ym_is_loaded m \<or> fst (load env m)
           then \<exists>ex. detect_body env m' image_path = Raises ex \<and> e = str_of_exn ex
           else e = msg_model_not_loaded \<and> e \<noteq> []) \<and>
          build_analysis_results image_path details r =
            \<lparr> ar_objects = [], ar_ocr = real_ocr_results,
              ar_description = txt_nothing_detected, ar_tags = [], ar_confidence = 0 \<rparr>)"
proof -
  obtain ok m' where l: "(if \<not> ym_is_loaded m then load env m else (True, m)) = (ok, m')"
    by (cases "if \<not> ym_is_loaded m then load env m else (True, m)")
  have ok: "ok \<longleftrightarrow> ym_is_loaded m \<or> fst (load env m)"
    using l by (auto split: if_splits)
  show ?thesis
  proof (cases ok)
    case False
    then show ?thesis
      using l ok
      by (simp add: detect_def build_on_no_objects msg_model_not_loaded_def)
  next
    case True
    show ?thesis
    proof (cases "detect_body env m' image_path")
      case (Returns r)
      then show ?thesis
        using l ok True detect_body_no_error [OF Returns] by (simp add: detect_def)
    next
      case (Raises ex)
      then show ?thesis
        using l ok True by (simp add: detect_def build_on_no_objects)
    qed
  qed
qed

text \<open>
  The claim as it is written asks for an error text that is not empty. An inference that
  raises an exception without a message gives the empty text.
\<close>

theorem detect_error_text_may_be_empty_counterexample:
  "fst (detect silent_yolo_env (new_yolo_model None (lit 25 100)) ''test_screenshot.png'') =
     Returns \<lparr> dr_error = Some [], dr_objects = Some [], dr_count = None,
               dr_image_path = Some ''test_screenshot.png'', dr_model = None \<rparr>"
  by (simp add: detect_def load_def detect_body_def new_yolo_model_def silent_yolo_env_def)

text \<open>A model file that cannot be loaded gives the fixed text.\<close>

lemma detect_with_broken_model:
  "fst (detect broken_yolo_env (new_yolo_model None (lit 25 100)) ''test_screenshot.png'') =
     Returns \<lparr> dr_error = Some msg_model_not_loaded, dr_objects = Some [], dr_count = None,
               dr_image_path = None, dr_model = None \<rparr>"
  by (simp add: detect_def load_def new_yolo_model_def broken_yolo_env_def)

section \<open>Loading one backend\<close>

lemma float_sub_nonneg: "b \<le> a \<Longrightarrow> 0 \<le> float_sub a b"
  by (simp add: float_sub_def b64_nonneg)

lemma mobilenet_steps_clock: "w_clock_reads (snd (mobilenet_steps env w)) = w_clock_reads w"
  by (simp add: mobilenet_steps_def call_def Let_def split: outcome.splits)

lemma tesseract_steps_clock: "w_clock_reads (snd (tesseract_steps env w)) = w_clock_reads w"
  by (simp add: tesseract_steps_def call_def Let_def split: outcome.splits)

lemma loaded_settled:
  "settled env name start_time (w_clock_reads w) (loaded env name handle start_time ld w)"
  "lr_success (fst (loaded env name handle start_time ld w))"
  "lr_error (fst (loaded env name handle start_time ld w)) = None"
  by (simp_all add: settled_def loaded_def read_clock_def Let_def)

lemma load_failed_settled:
  "settled env name start_time (w_clock_reads w) (load_failed env name e start_time ld w)"
  "\<not> lr_success (fst (load_failed env name e start_time ld w))"
  "lr_error (fst (load_failed env name e start_time ld w)) = Some (str_of_exn e)"
  by (simp_all add: settled_def load_failed_def read_clock_def Let_def)

lemma load_mobilenet_model_ok:
  assumes "enabled ld ''mobilenet''"
  shows "load_outcome_ok env ''mobilenet'' w (load_mobilenet_model env ld w)"
proof -
  define w0 where "w0 = snd (read_clock env w)"
  define start where "start = le_time env (w_clock_reads w)"
  have rc: "read_clock env w = (start, w0)" and w0: "w_clock_reads w0 = Suc (w_clock_reads w)"
    by (simp_all add: read_clock_def w0_def start_def)
  show ?thesis
  proof (cases "le_tf_available env")
    case False
    then have "load_mobilenet_model env ld w =
        load_failed env ''mobilenet'' (OtherError msg_no_tensorflow) start ld w0"
      using assms rc by (simp add: load_mobilenet_model_def)
    then show ?thesis
      using load_failed_settled [where env = env and name = "''mobilenet''" and start_time = start
          and w = w0 and e = "OtherError msg_no_tensorflow" and ld = ld]
      by (simp add: load_outcome_ok_def w0 start_def msg_no_tensorflow_def)
  next
    case True
    obtain r w1 where st: "mobilenet_steps env w0 = (r, w1)"
      by (cases "mobilenet_steps env w0")
    have w1: "w_clock_reads w1 = Suc (w_clock_reads w)"
      using mobilenet_steps_clock [of env w0] st w0 by simp
    show ?thesis
    proof (cases "wrap_import_error msg_no_mobilenet r")
      case (Returns u)
      then have "load_mobilenet_model env ld w = loaded env ''mobilenet'' MobileNetV2 start ld w1"
        using assms rc True st by (simp add: load_mobilenet_model_def)
      then show ?thesis
        using loaded_settled [where env = env and name = "''mobilenet''" and start_time = start
          and w = w1 and handle = MobileNetV2 and ld = ld]
        by (simp add: load_outcome_ok_def w1 start_def)
    next
      case (Raises e)
      then have eq: "load_mobilenet_model env ld w = load_failed env ''mobilenet'' e start ld w1"
        using assms rc True st by (simp add: load_mobilenet_model_def)
      have "str_of_exn e = [] \<longrightarrow> raised_without_text env ''mobilenet''"
        using Raises st
        by (auto simp: wrap_import_error_def mobilenet_steps_def raised_without_text_def
            silent_def msg_no_mobilenet_def Let_def split: outcome.splits exn.splits)
      then show ?thesis
        using load_failed_settled [where env = env and name = "''mobilenet''" and start_time = start
          and w = w1 and e = e and ld = ld] eq
        by (simp add: load_outcome_ok_def w1 start_def)
    qed
  qed
qed

lemma load_cocossd_model_ok:
  assumes "enabled ld ''cocossd''"
  shows "load_outcome_ok env ''cocossd'' w (load_cocossd_model env ld w)"
proof -
  define w0 where "w0 = snd (read_clock env w)"
  define w1 where "w1 = call ImportObjectDetection w0"
  define start where "start = le_time env (w_clock_reads w)"
  have rc: "read_clock env w = (start, w0)" and w0: "w_clock_reads w0 = Suc (w_clock_reads w)"
    by (simp_all add: read_clock_def w0_def start_def)
  have w1: "w_clock_reads w1 = Suc (w_clock_reads w)"
    by (simp add: w1_def call_def w0)
  show ?thesis
  proof (cases "le_tf_available env")
    case False
    then have "load_cocossd_model env ld w =
        load_failed env ''cocossd'' (OtherError msg_no_tensorflow) start ld w0"
      using assms rc by (simp add: load_cocossd_model_def)
    then show ?thesis
      using load_failed_settled [where env = env and name = "''cocossd''" and start_time = start
          and w = w0 and e = "OtherError msg_no_tensorflow" and ld = ld]
      by (simp add: load_outcome_ok_def w0 start_def msg_no_tensorflow_def)
  next
    case True
    show ?thesis
    proof (cases "wrap_import_error msg_no_cocossd (le_import_object_detection env)")
      case (Returns u)
      then have "load_cocossd_model env ld w = loaded env ''cocossd'' DummyCocoSSD start ld w1"
        using assms rc True by (simp add: load_cocossd_model_def w1_def Let_def)
      then show ?thesis
        using loaded_settled [where env = env and name = "''cocossd''" and start_time = start
          and w = w1 and handle = DummyCocoSSD and ld = ld]
        by (simp add: load_outcome_ok_def w1 start_def)
    next
      case (Raises e)
      then have eq: "load_cocossd_model env ld w = load_failed env ''cocossd'' e start ld w1"
        using assms rc True by (simp add: load_cocossd_model_def w1_def Let_def)
      have "str_of_exn e = [] \<longrightarrow> raised_without_text env ''cocossd''"
        using Raises
        by (auto simp: wrap_import_error_def raised_without_text_def silent_def
            msg_no_cocossd_def split: outcome.splits exn.splits)
      then show ?thesis
        using load_failed_settled [where env = env and name = "''cocossd''" and start_time = start
          and w = w1 and e = e and ld = ld] eq
        by (simp add: load_outcome_ok_def w1 start_def)
    qed
  qed
qed

lemma load_tesseract_model_ok:
  assumes "enabled ld ''tesseract''"
  shows "load_outcome_ok env ''tesseract'' w (load_tesseract_model env ld w)"
proof -
  define w0 where "w0 = snd (read_clock env w)"
  define start where "start = le_time env (w_clock_reads w)"
  have rc: "read_clock env w = (start, w0)" and w0: "w_clock_reads w0 = Suc (w_clock_reads w)"
    by (simp_all add: read_clock_def w0_def start_def)
  show ?thesis
  proof (cases "le_tesseract_available env")
    case False
    then have "load_tesseract_model env ld w =
        load_failed env ''tesseract'' (OtherError msg_no_pytesseract) start ld w0"
      using assms rc by (simp add: load_tesseract_model_def)
    then show ?thesis
      using load_failed_settled [where env = env and name = "''tesseract''" and start_time = start
          and w = w0 and e = "OtherError msg_no_pytesseract" and ld = ld]
      by (simp add: load_outcome_ok_def w0 start_def msg_no_pytesseract_def)
  next
    case True
    obtain r w1 where st: "tesseract_steps env w0 = (r, w1)"
      by (cases "tesseract_steps env w0")
    have w1: "w_clock_reads w1 = Suc (w_clock_reads w)"
      using tesseract_steps_clock [of env w0] st w0 by simp
    show ?thesis
    proof (cases r)
      case (Returns vl)
      obtain v ls where vl: "vl = (v, ls)" by (cases vl)
      define handle where
        "handle = Tesseract v ls (get_or (mc_config (get_model_config ld ''tesseract'')) ''--psm 3'')"
      obtain r' ld' w' where out: "loaded env ''tesseract'' handle start ld w1 = (r', ld', w')"
        by (cases "loaded env ''tesseract'' handle start ld w1")
      have eq: "load_tesseract_model env ld w =
          (r'\<lparr>lr_version := Some v, lr_languages := Some ls\<rparr>, ld', w')"
        using assms rc True st Returns vl out
        by (simp add: load_tesseract_model_def handle_def)
      show ?thesis
        using loaded_settled [where env = env and name = "''tesseract''" and start_time = start
          and w = w1 and handle = handle and ld = ld] out
        by (simp add: eq load_outcome_ok_def settled_def w1 start_def)
    next
      case (Raises e)
      then have eq: "load_tesseract_model env ld w = load_failed env ''tesseract'' e start ld w1"
        using assms rc True st by (simp add: load_tesseract_model_def)
      have "str_of_exn e \<noteq> []"
        using Raises st
        by (auto simp: tesseract_steps_def msg_no_tesseract_info_def Let_def
            split: outcome.splits)
      then show ?thesis
        using load_failed_settled [where env = env and name = "''tesseract''" and start_time = start
          and w = w1 and e = e and ld = ld] eq
        by (simp add: load_outcome_ok_def w1 start_def)
    qed
  qed
qed

text \<open>
  C7, as amended. Every call that loads one enabled backend returns an outcome with an
  elapsed time, the float difference of two readings of the clock, which is at least 0
  when the clock was not set back between them. The outcome is a success without an
  error, or a failure with an error text; the text is that of the exception, and it is
  empty only when a call into TensorFlow raised an exception without a message, never
  for Tesseract. The status of the backend in the registry is set to the loaded flag,
  the error text and the elapsed time of the outcome.
\<close>

theorem load_one_backend_outcome_and_status:
  assumes "name \<in> {''mobilenet'', ''cocossd'', ''tesseract''}"
    and "enabled ld name"
  shows "\<exists>r ld' w'. load_named env name ld w = (r, ld', w') \<and>
     (let start_time = le_time env (w_clock_reads w);
          end_time = le_time env (Suc (w_clock_reads w));
          elapsed = float_sub end_time start_time
      in lr_elapsed r = Some elapsed \<and>
         (start_time \<le> end_time \<longrightarrow> 0 \<le> elapsed) \<and>
         ld_model_status ld' name =
           Some \<lparr> ms_loaded = lr_success r, ms_error = lr_error r, ms_time = Some elapsed \<rparr> \<and>
         (if lr_success r then lr_error r = None
          else \<exists>msg. lr_error r = Some msg \<and>
                 (msg = [] \<longrightarrow> name \<noteq> ''tesseract'' \<and> raised_without_text env name)))"
proof -
  have ok: "load_outcome_ok env name w (load_named env name ld w)"
    using assms load_mobilenet_model_ok [of ld env w] load_cocossd_model_ok [of ld env w]
      load_tesseract_model_ok [of ld env w]
    by (auto simp: load_named_def)
  obtain r ld' w' where out: "load_named env name ld w = (r, ld', w')"
    by (cases "load_named env name ld w")
  have "le_time env (w_clock_reads w) \<le> le_time env (Suc (w_clock_reads w)) \<longrightarrow>
      0 \<le> float_sub (le_time env (Suc (w_clock_reads w))) (le_time env (w_clock_reads w))"
    by (simp add: float_sub_nonneg)
  then show ?thesis
    using ok by (simp add: out load_outcome_ok_def settled_def Let_def cong: if_cong)
qed

lemma fresh_loader_enabled: "enabled fresh_loader name"
  by (simp add: enabled_def get_model_config_def fresh_loader_def new_model_loader_def get_or_def)

lemma fresh_world_clock: "w_clock_reads fresh_world = 0"
  by (simp add: fresh_world_def new_model_loader_def)

lemma bare_env_elapsed: "float_sub (le_time bare_env (Suc 0)) (le_time bare_env 0) = 1 / 4"
  unfolding bare_env_def by simp code_simp

lemma set_back_env_elapsed:
  "float_sub (le_time set_back_env (Suc 0)) (le_time set_back_env 0) = - 1"
  unfolding set_back_env_def silent_env_def bare_env_def by simp code_simp

text \<open>
  On a machine without TensorFlow, loading MobileNet fails with the fixed text, after a
  quarter of a second on the clock of \<open>bare_env\<close>, and the registry says the same.
\<close>

theorem load_one_backend_outcome_and_status_witness:
  "enabled fresh_loader ''mobilenet'' \<and>
   (case load_named bare_env ''mobilenet'' fresh_loader fresh_world of
      (r, ld', w') \<Rightarrow>
        \<not> lr_success r \<and> lr_error r = Some msg_no_tensorflow \<and> lr_elapsed r = Some (1 / 4) \<and>
        ld_model_status ld' ''mobilenet'' =
          Some \<lparr> ms_loaded = False, ms_error = Some msg_no_tensorflow,
                 ms_time = Some (1 / 4) \<rparr>)"
proof -
  have name: "''mobilenet'' \<in> {''mobilenet'', ''cocossd'', ''tesseract''}" by simp
  obtain r ld' w' where out: "load_named bare_env ''mobilenet'' fresh_loader fresh_world = (r, ld', w')"
    and el: "lr_elapsed r = Some (float_sub (le_time bare_env (Suc (w_clock_reads fresh_world)))
                                   (le_time bare_env (w_clock_reads fresh_world)))"
    and st: "ld_model_status ld' ''mobilenet'' =
        Some \<lparr> ms_loaded = lr_success r, ms_error = lr_error r,
               ms_time = Some (float_sub (le_time bare_env (Suc (w_clock_reads fresh_world)))
                                 (le_time bare_env (w_clock_reads fresh_world))) \<rparr>"
    using load_one_backend_outcome_and_status [OF name fresh_loader_enabled, of bare_env fresh_world]
    by (auto simp: Let_def)
  have r: "\<not> lr_success r \<and> lr_error r = Some msg_no_tensorflow"
    using out
    by (auto simp: load_named_def load_mobilenet_model_def fresh_loader_enabled read_clock_def
        load_failed_def bare_env_def Let_def)
  show ?thesis
    using el st r
    by (simp add: out fresh_loader_enabled fresh_world_clock bare_env_elapsed)
qed

text \<open>
  The claim as it is written asks for an error text that is not empty and for an elapsed
  time of at least 0. When building MobileNet raises an exception without a message the
  error text is empty, and when the clock is set back during the load the elapsed time is
  negative.
\<close>

theorem load_error_text_may_be_empty_counterexample:
  "enabled fresh_loader ''mobilenet'' \<and>
   \<not> lr_success (fst (load_named silent_env ''mobilenet'' fresh_loader fresh_world)) \<and>
   lr_error (fst (load_named silent_env ''mobilenet'' fresh_loader fresh_world)) = Some [] \<and>
   lr_elapsed (fst (load_named set_back_env ''mobilenet'' fresh_loader fresh_world)) = Some (- 1)"
proof -
  have a: "load_named silent_env ''mobilenet'' fresh_loader fresh_world =
      load_failed silent_env ''mobilenet'' (OtherError []) (le_time silent_env 0) fresh_loader
        (call BuildMobileNet (call ImportMobileNet (snd (read_clock silent_env fresh_world))))"
    by (simp add: load_named_def load_mobilenet_model_def fresh_loader_enabled read_clock_def
        fresh_world_clock mobilenet_steps_def wrap_import_error_def silent_env_def bare_env_def
        Let_def)
  have b: "load_named set_back_env ''mobilenet'' fresh_loader fresh_world =
      load_failed set_back_env ''mobilenet'' (OtherError []) (le_time set_back_env 0) fresh_loader
        (call BuildMobileNet (call ImportMobileNet (snd (read_clock set_back_env fresh_world))))"
    by (simp add: load_named_def load_mobilenet_model_def fresh_loader_enabled read_clock_def
        fresh_world_clock mobilenet_steps_def wrap_import_error_def set_back_env_def
        silent_env_def bare_env_def Let_def)
  have c: "lr_elapsed (fst (load_named set_back_env ''mobilenet'' fresh_loader fresh_world)) =
      Some (float_sub (le_time set_back_env (Suc 0)) (le_time set_back_env 0))"
    unfolding b by (simp add: load_failed_def read_clock_def call_def fresh_world_clock Let_def)
  show ?thesis
    unfolding c set_back_env_elapsed
    by (simp add: a load_failed_def read_clock_def Let_def fresh_loader_enabled)
qed

section \<open>Loading in headless mode\<close>

text \<open>
  C5. With headless mode and the mock-in-headless policy both set in the configuration
  and without the force flag, loading all backends answers at once: the overall success
  is true, and mobilenet, cocossd and tesseract each have an entry with success true and
  the message "skipped in headless mode". The world is returned as it was: no model
  loader has been made and no backend has been called.
\<close>

theorem headless_load_all_is_skipped:
  assumes "cfg_headless_mode c = Some True"
    and "cfg_mock_in_headless c = Some True"
  shows "\<exists>a. test_model_loading env ''all'' False (Some c) w = (AllModels a, w) \<and>
           al_success a \<and>
           map fst (al_models a) = [''mobilenet'', ''cocossd'', ''tesseract''] \<and>
           (\<forall>(name, r) \<in> set (al_models a).
              lr_success r \<and> lr_model r = Some name \<and> lr_message r = msg_skipped \<and>
              lr_error r = None \<and> lr_elapsed r = None)"
  using assms
  by (simp add: test_model_loading_def headless_mode_def mock_in_headless_def get_or_def
      skipped_result_def Let_def)

theorem headless_load_all_is_skipped_witness:
  "cfg_headless_mode headless_config = Some True \<and>
   cfg_mock_in_headless headless_config = Some True \<and>
   snd (test_model_loading bare_env ''all'' False (Some headless_config) fresh_world)
     = fresh_world \<and>
   w_calls fresh_world = [NewModelLoader] \<and>
   (case fst (test_model_loading bare_env ''all'' False (Some headless_config) fresh_world) of
      AllModels a \<Rightarrow> al_success a \<and> map (\<lambda>(name, r). (name, lr_success r, lr_message r)) (al_models a) =
        [(''mobilenet'', True, msg_skipped), (''cocossd'', True, msg_skipped),
         (''tesseract'', True, msg_skipped)]
    | OneModel r \<Rightarrow> False)"
proof -
  have h: "cfg_headless_mode headless_config = Some True"
    and m: "cfg_mock_in_headless headless_config = Some True"
    by (simp_all add: headless_config_def)
  from headless_load_all_is_skipped [OF h m, of bare_env fresh_world]
  obtain a where A:
    "test_model_loading bare_env ''all'' False (Some headless_config) fresh_world
       = (AllModels a, fresh_world) \<and>
     al_success a \<and>
     map fst (al_models a) = [''mobilenet'', ''cocossd'', ''tesseract''] \<and>
     (\<forall>(name, r) \<in> set (al_models a). lr_success r \<and> lr_model r = Some name \<and>
        lr_message r = msg_skipped \<and> lr_error r = None \<and> lr_elapsed r = None)" ..
  then have a: "test_model_loading bare_env ''all'' False (Some headless_config) fresh_world
      = (AllModels a, fresh_world)"
    and s: "al_success a"
    and n: "map fst (al_models a) = [''mobilenet'', ''cocossd'', ''tesseract'']"
    and e: "\<forall>(name, r) \<in> set (al_models a). lr_success r \<and> lr_model r = Some name \<and>
              lr_message r = msg_skipped \<and> lr_error r = None \<and> lr_elapsed r = None"
    by simp_all
  obtain r1 r2 r3 where l: "al_models a = [(''mobilenet'', r1), (''cocossd'', r2), (''tesseract'', r3)]"
    using n by (auto simp: map_eq_Cons_conv)
  have "map (\<lambda>(name, r). (name, lr_success r, lr_message r)) (al_models a) =
        [(''mobilenet'', True, msg_skipped), (''cocossd'', True, msg_skipped),
         (''tesseract'', True, msg_skipped)]"
    using e by (simp add: l)
  moreover have "w_calls fresh_world = [NewModelLoader]"
    by (simp add: fresh_world_def new_model_loader_def)
  ultimately show ?thesis
    using h m s by (simp add: a)
qed

text \<open>
  With the force flag the loader is made and the backends are asked; on the machine
  where nothing is installed each load fails, and so does the whole.
\<close>

lemma forced_load_all_reaches_the_loader:
  "(case test_model_loading bare_env ''all'' True (Some headless_config)
           \<lparr> w_clock_reads = 0, w_calls = [] \<rparr> of
      (AllModels a, w') \<Rightarrow>
        \<not> al_success a \<and> w_calls w' = [NewModelLoader] \<and> w_clock_reads w' = 6 \<and>
        map (\<lambda>(name, r). (name, lr_success r, lr_error r)) (al_models a) =
          [(''mobilenet'', False, Some msg_no_tensorflow),
           (''cocossd'', False, Some msg_no_tensorflow),
           (''tesseract'', False, Some msg_no_pytesseract)]
    | (OneModel r, w') \<Rightarrow> False)"
  by (simp add: test_model_loading_def headless_mode_def mock_in_headless_def get_or_def
      headless_config_def new_model_loader_def load_models_def load_named_def
      load_mobilenet_model_def load_cocossd_model_def load_tesseract_model_def
      enabled_def get_model_config_def read_clock_def load_failed_def bare_env_def Let_def)

end
